theory Spec2Isabelle
  imports Main "HOL-Library.Product_Lexorder"
begin

section \<open>Data model\<close>

text \<open>
  The scenario engine of \<^verbatim>\<open>src/utils/getScenarioContent.tsx\<close>. JavaScript values that
  may be \<^verbatim>\<open>null\<close> or \<^verbatim>\<open>undefined\<close> are options; a string is a list of characters
  (a character outside ASCII is its UTF-8 bytes).
\<close>

datatype ScenarioType =
  Scenario1 | Scenario2 | Scenario3 | Scenario4 | Scenario5 | Scenario6

text \<open>
  Modelled from the spec: the interface \<^verbatim>\<open>PendingDetermination\<close> of \<^verbatim>\<open>types/common\<close> is
  missing. The fields are the four the engine reads, each a string or absent, none of
  them checked beforehand.
\<close>

record PendingDetermination =
  determinationStatus :: "string option"
  scheduleDate :: "string option"
  requestDate :: "string option"
  timeSlotDesc :: "string option"

text \<open>
  Modelled from the spec: the interface \<^verbatim>\<open>Claim\<close> of \<^verbatim>\<open>types/common\<close> is missing. The
  flags are booleans or absent, the list of pending determinations and the claim
  details may be \<^verbatim>\<open>null\<close>; the type of the details is left open.
\<close>

record 'cd Claim =
  claimPendingDetermination :: "PendingDetermination list option"
  hasPendingWeeks :: "bool option"
  hasCertificationWeeksAvailable :: "bool option"
  claimDetails :: "'cd option"

text \<open>The interface \<^verbatim>\<open>PendingDeterminationScenario\<close>; its second field is optional.\<close>

record PendingDeterminationScenario =
  scenarioType :: ScenarioType
  pendingDetermination :: "PendingDetermination option"

text \<open>
  Truthiness of a value of type \<^verbatim>\<open>string | null | undefined\<close>: only the empty string
  and the two absent values are falsy.
\<close>

definition truthy :: "string option \<Rightarrow> bool" where
  "truthy v = (case v of None \<Rightarrow> False | Some s \<Rightarrow> s \<noteq> [])"

section \<open>The imported helpers\<close>

text \<open>
  \<^verbatim>\<open>getScenarioContent.tsx\<close> imports \<^verbatim>\<open>isValidDate\<close>, \<^verbatim>\<open>isDatePast\<close> and
  \<^verbatim>\<open>parseConvertDate\<close> from \<^verbatim>\<open>./formatDate\<close> and \<^verbatim>\<open>isFirstTimeSlotEarlier\<close> from
  \<^verbatim>\<open>./timeSlot\<close>; neither module is among the sources. The engine takes them as a
  parameter, a record of four functions. A \<^verbatim>\<open>Date\<close> is its time value, of a linearly
  ordered type \<open>'d\<close>, or \<open>None\<close> for \<^verbatim>\<open>Invalid Date\<close>; the comparison of the time slots
  answers \<^verbatim>\<open>true\<close>, \<^verbatim>\<open>false\<close> or \<^verbatim>\<open>null\<close>.
\<close>

record 'd helpers =
  h_isValidDate :: "string option \<Rightarrow> bool"
  h_parseConvertDate :: "string option \<Rightarrow> 'd option"
  h_isDatePast :: "'d option \<Rightarrow> bool"
  h_isFirstTimeSlotEarlier :: "string option \<Rightarrow> string option \<Rightarrow> bool option"

text \<open>
  The operator \<^verbatim>\<open><\<close> on two \<^verbatim>\<open>Date\<close> objects compares their time values; with an
  \<^verbatim>\<open>Invalid Date\<close> on either side the time value is \<^verbatim>\<open>NaN\<close> and the answer is false.
\<close>

definition dateLess :: "('d::ord) option \<Rightarrow> 'd option \<Rightarrow> bool" where
  "dateLess a b =
     (case a of None \<Rightarrow> False
      | Some x \<Rightarrow> (case b of None \<Rightarrow> False | Some y \<Rightarrow> x < y))"

section \<open>The functions of getScenarioContent.tsx\<close>

definition NonPendingDeterminationValues :: "string list" where
  "NonPendingDeterminationValues =
     [''Canceled'', ''Complete'', ''TRAN'', ''INVL'', ''IDNC'', ''1277'', ''OTHR'', ''ClmCX'']"

text \<open>\<^verbatim>\<open>Array.prototype.includes\<close> on strings: equality of the character sequences.\<close>

definition arrayIncludes :: "string list \<Rightarrow> string \<Rightarrow> bool" where
  "arrayIncludes xs v = (v \<in> set xs)"

definition isDeterminationStatusPending :: "PendingDetermination \<Rightarrow> bool" where
  "isDeterminationStatusPending pd =
     (\<not> truthy (determinationStatus pd) \<or>
      (case determinationStatus pd of
         None \<Rightarrow> True
       | Some s \<Rightarrow> \<not> arrayIncludes NonPendingDeterminationValues s))"

definition isScheduledStrictlyBefore ::
  "('d::ord) helpers \<Rightarrow> PendingDetermination \<Rightarrow> PendingDetermination \<Rightarrow> bool" where
  "isScheduledStrictlyBefore h first second =
     (let firstScheduleDate = h_parseConvertDate h (scheduleDate first);
          secondScheduleDate = h_parseConvertDate h (scheduleDate second)
      in if dateLess firstScheduleDate secondScheduleDate then True
         else if dateLess secondScheduleDate firstScheduleDate then False
         else (let isEarlier =
                     h_isFirstTimeSlotEarlier h (timeSlotDesc first) (timeSlotDesc second)
               in case isEarlier of
                    None \<Rightarrow> False
                  | Some b \<Rightarrow> if \<not> b then False else b))"

text \<open>The three variables of the loop of \<^verbatim>\<open>identifyPendingDeterminationScenario\<close>.\<close>

record loopState =
  earliestScheduled :: "PendingDetermination option"
  hasAwaitingDecision :: bool
  hasNotYetScheduled :: bool

definition initialState :: loopState where
  "initialState =
     \<lparr>earliestScheduled = None, hasAwaitingDecision = False, hasNotYetScheduled = False\<rparr>"

text \<open>One pass of the loop body, on the record \<open>pd\<close>.\<close>

definition loopBody ::
  "('d::ord) helpers \<Rightarrow> loopState \<Rightarrow> PendingDetermination \<Rightarrow> loopState" where
  "loopBody h st pd =
     (if isDeterminationStatusPending pd \<and> h_isValidDate h (scheduleDate pd) then
        (if \<not> h_isDatePast h (h_parseConvertDate h (scheduleDate pd)) then
           (case earliestScheduled st of
              None \<Rightarrow> st\<lparr>earliestScheduled := Some pd\<rparr>
            | Some e \<Rightarrow>
                if isScheduledStrictlyBefore h pd e
                then st\<lparr>earliestScheduled := Some pd\<rparr> else st)
         else st\<lparr>hasAwaitingDecision := True\<rparr>)
      else if \<not> truthy (determinationStatus pd) \<and> \<not> truthy (scheduleDate pd) \<and>
              truthy (requestDate pd)
        then st\<lparr>hasNotYetScheduled := True\<rparr>
      else st)"

definition identifyPendingDeterminationScenario ::
  "('d::ord) helpers \<Rightarrow> PendingDetermination list \<Rightarrow> PendingDeterminationScenario option" where
  "identifyPendingDeterminationScenario h pendingDeterminations =
     (let st = foldl (loopBody h) initialState pendingDeterminations
      in case earliestScheduled st of
           Some e \<Rightarrow> Some \<lparr>scenarioType = Scenario2, pendingDetermination = Some e\<rparr>
         | None \<Rightarrow>
             if hasAwaitingDecision st
             then Some \<lparr>scenarioType = Scenario3, pendingDetermination = None\<rparr>
             else if hasNotYetScheduled st
             then Some \<lparr>scenarioType = Scenario1, pendingDetermination = None\<rparr>
             else None)"

text \<open>The tail of \<^verbatim>\<open>getScenario\<close>: the scenarios read off the two flags.\<close>

definition flagScenario :: "'cd Claim \<Rightarrow> PendingDeterminationScenario" where
  "flagScenario claimData =
     (if hasPendingWeeks claimData = Some True
      then \<lparr>scenarioType = Scenario4, pendingDetermination = None\<rparr>
      else if hasCertificationWeeksAvailable claimData = Some False
      then \<lparr>scenarioType = Scenario5, pendingDetermination = None\<rparr>
      else \<lparr>scenarioType = Scenario6, pendingDetermination = None\<rparr>)"

definition getScenario :: "('d::ord) helpers \<Rightarrow> 'cd Claim \<Rightarrow> PendingDeterminationScenario" where
  "getScenario h claimData =
     (case claimPendingDetermination claimData of
        None \<Rightarrow> flagScenario claimData
      | Some pds \<Rightarrow>
          if length pds > 0 then
            (case identifyPendingDeterminationScenario h pds of
               Some pendingDeterminationScenario \<Rightarrow> pendingDeterminationScenario
             | None \<Rightarrow> flagScenario claimData)
          else flagScenario claimData)"

definition continueCertifying :: "ScenarioType \<Rightarrow> 'cd Claim \<Rightarrow> bool" where
  "continueCertifying st claimData =
     (let isIgnoredScenario = (st \<in> set [Scenario5, Scenario6])
      in if \<not> isIgnoredScenario \<and> hasCertificationWeeksAvailable claimData = Some True
         then True else False)"

subsection \<open>The claim as it is received\<close>

text \<open>
  \<^verbatim>\<open>extractJSON\<close> of \<^verbatim>\<open>queryApiGateway.ts\<close> casts the parsed body of the response to
  \<^verbatim>\<open>Claim\<close> and validates nothing, and \<^verbatim>\<open>getScenarioContent\<close> is called on that value. At
  run time an element of the array of pending determinations may therefore be \<^verbatim>\<open>null\<close>,
  and \<^verbatim>\<open>claimDetails\<close> may be any value of JSON. The received claim is an object whose
  \<^verbatim>\<open>pendingDetermination\<close> is absent or an array of records and nulls; the two flags are
  booleans or absent.
\<close>

text \<open>
  A value of JavaScript that JSON can hold, or \<^verbatim>\<open>undefined\<close> for a missing field. A
  number is an integer here; an array is an object.
\<close>

datatype 'o jsValue =
  JsUndefined | JsNull | JsBoolean bool | JsNumber int | JsString string | JsObject 'o

text \<open>Truthiness: \<^verbatim>\<open>undefined\<close>, \<^verbatim>\<open>null\<close>, \<^verbatim>\<open>false\<close>, zero and the empty string are falsy.\<close>

definition jsTruthy :: "'o jsValue \<Rightarrow> bool" where
  "jsTruthy v =
     (case v of
        JsUndefined \<Rightarrow> False
      | JsNull \<Rightarrow> False
      | JsBoolean b \<Rightarrow> b
      | JsNumber n \<Rightarrow> n \<noteq> 0
      | JsString s \<Rightarrow> s \<noteq> []
      | JsObject x \<Rightarrow> True)"

record 'o receivedClaim =
  receivedPendingDetermination :: "PendingDetermination option list option"
  receivedHasPendingWeeks :: "bool option"
  receivedHasCertificationWeeksAvailable :: "bool option"
  receivedClaimDetails :: "'o jsValue"

text \<open>
  The errors that the code of \<^verbatim>\<open>getScenarioContent.tsx\<close> raises: the
  \<^verbatim>\<open>Error('Missing claim details')\<close> that it throws, and the \<^verbatim>\<open>TypeError\<close> of reading a
  property of \<^verbatim>\<open>null\<close>.
\<close>

datatype error = MissingClaimDetails | TypeError

text \<open>
  The loop body on an element of the received array. Its first step is the call
  \<^verbatim>\<open>isDeterminationStatusPending(pendingDetermination)\<close>, which reads
  \<^verbatim>\<open>pendingDetermination.determinationStatus\<close>: on \<^verbatim>\<open>null\<close> the read throws; on a record the
  body is \<open>loopBody\<close>.
\<close>

definition loopBody_received ::
  "('d::ord) helpers \<Rightarrow> loopState \<Rightarrow> PendingDetermination option \<Rightarrow> error + loopState" where
  "loopBody_received h st element =
     (case element of
        None \<Rightarrow> Inl TypeError
      | Some pd \<Rightarrow> Inr (loopBody h st pd))"

text \<open>The loop: an error leaves it at once.\<close>

fun loop_received ::
  "('d::ord) helpers \<Rightarrow> loopState \<Rightarrow> PendingDetermination option list \<Rightarrow> error + loopState"
  where
  "loop_received h st [] = Inr st"
| "loop_received h st (element # rest) =
     (case loopBody_received h st element of
        Inl e \<Rightarrow> Inl e
      | Inr st' \<Rightarrow> loop_received h st' rest)"

definition identifyPendingDeterminationScenario_received ::
  "('d::ord) helpers \<Rightarrow> PendingDetermination option list
     \<Rightarrow> error + PendingDeterminationScenario option" where
  "identifyPendingDeterminationScenario_received h pendingDeterminations =
     (case loop_received h initialState pendingDeterminations of
        Inl e \<Rightarrow> Inl e
      | Inr st \<Rightarrow>
          Inr (case earliestScheduled st of
                 Some e \<Rightarrow> Some \<lparr>scenarioType = Scenario2, pendingDetermination = Some e\<rparr>
               | None \<Rightarrow>
                   if hasAwaitingDecision st
                   then Some \<lparr>scenarioType = Scenario3, pendingDetermination = None\<rparr>
                   else if hasNotYetScheduled st
                   then Some \<lparr>scenarioType = Scenario1, pendingDetermination = None\<rparr>
                   else None))"

definition flagScenario_received :: "'o receivedClaim \<Rightarrow> PendingDeterminationScenario" where
  "flagScenario_received claimData =
     (if receivedHasPendingWeeks claimData = Some True
      then \<lparr>scenarioType = Scenario4, pendingDetermination = None\<rparr>
      else if receivedHasCertificationWeeksAvailable claimData = Some False
      then \<lparr>scenarioType = Scenario5, pendingDetermination = None\<rparr>
      else \<lparr>scenarioType = Scenario6, pendingDetermination = None\<rparr>)"

definition getScenario_received ::
  "('d::ord) helpers \<Rightarrow> 'o receivedClaim \<Rightarrow> error + PendingDeterminationScenario" where
  "getScenario_received h claimData =
     (case receivedPendingDetermination claimData of
        None \<Rightarrow> Inr (flagScenario_received claimData)
      | Some pds \<Rightarrow>
          if length pds > 0 then
            (case identifyPendingDeterminationScenario_received h pds of
               Inl e \<Rightarrow> Inl e
             | Inr (Some pendingDeterminationScenario) \<Rightarrow> Inr pendingDeterminationScenario
             | Inr None \<Rightarrow> Inr (flagScenario_received claimData))
          else Inr (flagScenario_received claimData))"

definition continueCertifying_received :: "ScenarioType \<Rightarrow> 'o receivedClaim \<Rightarrow> bool" where
  "continueCertifying_received st claimData =
     (let isIgnoredScenario = (st \<in> set [Scenario5, Scenario6])
      in if \<not> isIgnoredScenario \<and>
            receivedHasCertificationWeeksAvailable claimData = Some True
         then True else False)"

text \<open>
  \<^verbatim>\<open>getScenarioContent\<close>, on the received claim. The two builders of content,
  \<^verbatim>\<open>getClaimStatus\<close> and \<^verbatim>\<open>getClaimDetails\<close>, are in modules that are not among the sources
  and are parameters. An error of \<^verbatim>\<open>getScenario\<close> leaves the function before the claim
  details are looked at; the function throws on every falsy \<^verbatim>\<open>claimDetails\<close>.
\<close>

record ('s, 'c) ScenarioContent =
  statusContent :: 's
  detailsContent :: 'c

definition getScenarioContent ::
  "('d::ord) helpers \<Rightarrow> (ScenarioType \<Rightarrow> bool \<Rightarrow> 's) \<Rightarrow> ('o jsValue \<Rightarrow> 'c)
     \<Rightarrow> 'o receivedClaim \<Rightarrow> error + ('s, 'c) ScenarioContent" where
  "getScenarioContent h getClaimStatus getClaimDetails claimData =
     (case getScenario_received h claimData of
        Inl e \<Rightarrow> Inl e
      | Inr scenarioTypeObject \<Rightarrow>
          (let st = scenarioType scenarioTypeObject;
               sc = getClaimStatus st (continueCertifying_received st claimData)
           in if \<not> jsTruthy (receivedClaimDetails claimData)
              then Inl MissingClaimDetails
              else Inr \<lparr>statusContent = sc,
                        detailsContent = getClaimDetails (receivedClaimDetails claimData)\<rparr>))"

text \<open>
  The received claim read at the declared type \<^verbatim>\<open>Claim\<close>, with \<open>pds\<close> for its list of
  records.
\<close>

definition declaredClaim ::
  "'o receivedClaim \<Rightarrow> PendingDetermination list option \<Rightarrow> 'o Claim" where
  "declaredClaim claimData pds =
     \<lparr>claimPendingDetermination = pds,
      hasPendingWeeks = receivedHasPendingWeeks claimData,
      hasCertificationWeeksAvailable = receivedHasCertificationWeeksAvailable claimData,
      claimDetails =
        (case receivedClaimDetails claimData of JsObject details \<Rightarrow> Some details | _ \<Rightarrow> None)\<rparr>"

section \<open>The helpers, from the specification\<close>

subsection \<open>formatDate\<close>

text \<open>
  A parsed date keeps the six fields of the calendar: year, month, day, hour, minute
  and second. The order of the time values is the lexicographic order of the fields.
\<close>

type_synonym calendarTime = "nat \<times> nat \<times> nat \<times> nat \<times> nat \<times> nat"

definition digit :: "char \<Rightarrow> nat option" where
  "digit c =
     map_of [(CHR ''0'', 0), (CHR ''1'', 1), (CHR ''2'', 2), (CHR ''3'', 3), (CHR ''4'', 4),
             (CHR ''5'', 5), (CHR ''6'', 6), (CHR ''7'', 7), (CHR ''8'', 8), (CHR ''9'', 9)] c"

text \<open>The value of a non-empty string of decimal digits.\<close>

definition decimal :: "string \<Rightarrow> nat option" where
  "decimal s =
     (if s = [] then None
      else map_option (foldl (\<lambda>n d. 10 * n + d) 0) (those (map digit s)))"

text \<open>
  Modelled from the spec: the parser of \<^verbatim>\<open>formatDate.ts\<close> is missing. The spec says that
  the text is parsed "as a calendar date/time", that the strings are "ISO-like", and
  gives \<^verbatim>\<open>2013-01-01T00:00:00\<close> as an example. The model reads that shape, nineteen
  characters with the fields in their calendar ranges, and fails on any other text.
\<close>

definition parseDate :: "string \<Rightarrow> calendarTime option" where
  "parseDate s =
     (if length s = 19 \<and> s ! 4 = CHR ''-'' \<and> s ! 7 = CHR ''-'' \<and> s ! 10 = CHR ''T'' \<and>
         s ! 13 = CHR '':'' \<and> s ! 16 = CHR '':''
      then
        (case decimal (take 4 s) of None \<Rightarrow> None | Some y \<Rightarrow>
        (case decimal (take 2 (drop 5 s)) of None \<Rightarrow> None | Some m \<Rightarrow>
        (case decimal (take 2 (drop 8 s)) of None \<Rightarrow> None | Some d \<Rightarrow>
        (case decimal (take 2 (drop 11 s)) of None \<Rightarrow> None | Some hh \<Rightarrow>
        (case decimal (take 2 (drop 14 s)) of None \<Rightarrow> None | Some mi \<Rightarrow>
        (case decimal (take 2 (drop 17 s)) of None \<Rightarrow> None | Some ss \<Rightarrow>
           if 1 \<le> m \<and> m \<le> 12 \<and> 1 \<le> d \<and> d \<le> 31 \<and> hh < 24 \<and> mi < 60 \<and> ss < 60
           then Some (y, m, d, hh, mi, ss) else None))))))
      else None)"

text \<open>
  Modelled from the spec: \<^verbatim>\<open>parseConvertDate\<close> of \<^verbatim>\<open>formatDate.ts\<close> is missing and the spec
  does not describe it; it is taken to be the parser that \<^verbatim>\<open>isValidDate\<close> uses, with
  \<^verbatim>\<open>Invalid Date\<close> for an absent text.
\<close>

definition parseConvertDate :: "string option \<Rightarrow> calendarTime option" where
  "parseConvertDate text = (case text of None \<Rightarrow> None | Some s \<Rightarrow> parseDate s)"

definition minDate :: calendarTime where
  "minDate = (2013, 1, 1, 0, 0, 0)"

text \<open>
  Modelled from the spec: \<^verbatim>\<open>isValidDate\<close> of \<^verbatim>\<open>formatDate.ts\<close> is missing. "Returns false
  if unparseable OR if the parsed date is earlier than a fixed minimum threshold date
  (the year 2013-01-01). Returns true otherwise. Must not raise on malformed input."
\<close>

definition isValidDate :: "string option \<Rightarrow> bool" where
  "isValidDate text =
     (case parseConvertDate text of
        None \<Rightarrow> False
      | Some d \<Rightarrow> if d < minDate then False else True)"

text \<open>
  Modelled from the spec: \<^verbatim>\<open>isDatePast\<close> of \<^verbatim>\<open>formatDate.ts\<close> is missing. It "compares a
  valid date's calendar day (ignoring time-of-day) against the current calendar day"
  and "returns true only if strictly earlier". The current day is the parameter
  \<open>today\<close>: year, month, day.
\<close>

definition calendarDay :: "calendarTime \<Rightarrow> nat \<times> nat \<times> nat" where
  "calendarDay t = (case t of (y, m, d, rest) \<Rightarrow> (y, m, d))"

definition isDatePast :: "nat \<times> nat \<times> nat \<Rightarrow> calendarTime option \<Rightarrow> bool" where
  "isDatePast today date =
     (case date of None \<Rightarrow> False | Some t \<Rightarrow> calendarDay t < today)"

subsection \<open>timeSlot\<close>

text \<open>
  Modelled from the spec: \<^verbatim>\<open>ParsedTimeSlot\<close> is "rangeStart: integer 1-12, rangeEnd:
  integer 1-12 (12-hour clock numbers, no AM/PM flag)".
\<close>

record ParsedTimeSlot =
  rangeStart :: nat
  rangeEnd :: nat

text \<open>The hyphen, the en dash and the em dash; the two dashes as their UTF-8 bytes.\<close>

definition separators :: "string list" where
  "separators =
     [[CHR ''-''], [CHR 0xE2, CHR 0x80, CHR 0x93], [CHR 0xE2, CHR 0x80, CHR 0x94]]"

definition isDigit :: "char \<Rightarrow> bool" where
  "isDigit c = (digit c \<noteq> None)"

definition isWhitespace :: "char \<Rightarrow> bool" where
  "isWhitespace c = (c \<in> set [CHR '' '', CHR 0x09, CHR 0x0A, CHR 0x0D])"

definition trim :: "string \<Rightarrow> string" where
  "trim s = rev (dropWhile isWhitespace (rev (dropWhile isWhitespace s)))"

text \<open>A number of one or two digits at the head of the text, and the text after it.\<close>

definition leadingNumber :: "string \<Rightarrow> (nat \<times> string) option" where
  "leadingNumber s =
     (let ds = takeWhile isDigit s
      in if length ds = 1 \<or> length ds = 2
         then map_option (\<lambda>n. (n, drop (length ds) s)) (decimal ds)
         else None)"

text \<open>The text after a separator at the head of the text.\<close>

definition afterSeparator :: "string \<Rightarrow> string option" where
  "afterSeparator s =
     map_option (\<lambda>sep. drop (length sep) s)
       (List.find (\<lambda>sep. take (length sep) s = sep) separators)"

text \<open>
  Modelled from the spec: \<^verbatim>\<open>parseTimeSlot\<close> of \<^verbatim>\<open>timeSlot.ts\<close> is missing. It "accepts a
  string of the exact shape <1-2 digit number><separator><1-2 digit number> where
  separator is one of: hyphen, en dash, em dash (optionally surrounded by whitespace in
  the surrounding context but not between number and separator). Returns absent (parse
  failure) for any other shape - extra text, missing numbers, wrong separator,
  out-of-range numbers are all failures". The model drops the whitespace around the
  slot and accepts none inside it; an absent text fails too.
\<close>

definition parseTimeSlot :: "string option \<Rightarrow> ParsedTimeSlot option" where
  "parseTimeSlot text =
     (case text of None \<Rightarrow> None | Some s \<Rightarrow>
     (case leadingNumber (trim s) of None \<Rightarrow> None | Some (a, r1) \<Rightarrow>
     (case afterSeparator r1 of None \<Rightarrow> None | Some r2 \<Rightarrow>
     (case leadingNumber r2 of None \<Rightarrow> None | Some (b, r3) \<Rightarrow>
        if r3 = [] \<and> 1 \<le> a \<and> a \<le> 12 \<and> 1 \<le> b \<and> b \<le> 12
        then Some \<lparr>rangeStart = a, rangeEnd = b\<rparr> else None))))"

text \<open>
  Modelled from the spec: \<^verbatim>\<open>samePeriod\<close> of \<^verbatim>\<open>timeSlot.ts\<close> is missing. "Hours 1-7
  signify afternoon/evening (PM), hours 8-12 signify morning (AM)"; it "returns true iff
  both hours map to the same period under this convention".
\<close>

definition isAm :: "nat \<Rightarrow> bool" where
  "isAm hour = (8 \<le> hour \<and> hour \<le> 12)"

definition samePeriod :: "nat \<Rightarrow> nat \<Rightarrow> bool" where
  "samePeriod hourA hourB = (isAm hourA = isAm hourB)"

text \<open>
  Modelled from the spec: \<^verbatim>\<open>isFirstTimeSlotEarlier\<close> of \<^verbatim>\<open>timeSlot.ts\<close> is missing. "Both
  fail to parse: result is absent. If only B fails to parse, the first (A) is considered
  earlier (true); if only A fails, the first is considered not earlier (false). Both
  parse: compare rangeStart numerically under 12-hour-clock ordering where PM hours 1-7
  sort after AM hours 8-12 if periods differ; if the two starts denote the same period,
  compare numerically within that period; ties resolve to false."
\<close>

definition isFirstTimeSlotEarlier :: "string option \<Rightarrow> string option \<Rightarrow> bool option" where
  "isFirstTimeSlotEarlier textA textB =
     (case parseTimeSlot textA of
        None \<Rightarrow> (case parseTimeSlot textB of None \<Rightarrow> None | Some b \<Rightarrow> Some False)
      | Some a \<Rightarrow>
          (case parseTimeSlot textB of
             None \<Rightarrow> Some True
           | Some b \<Rightarrow>
               if samePeriod (rangeStart a) (rangeStart b)
               then Some (rangeStart a < rangeStart b)
               else Some (isAm (rangeStart a))))"

text \<open>The four helpers as the engine takes them, on the day \<open>today\<close>.\<close>

definition specHelpers :: "nat \<times> nat \<times> nat \<Rightarrow> calendarTime helpers" where
  "specHelpers today =
     \<lparr>h_isValidDate = isValidDate,
      h_parseConvertDate = parseConvertDate,
      h_isDatePast = isDatePast today,
      h_isFirstTimeSlotEarlier = isFirstTimeSlotEarlier\<rparr>"

section \<open>The classification in the words of the specification\<close>

text \<open>
  The four categories of a record, and the conditions of section 4.3 in their order.
  A field is absent when it is \<^verbatim>\<open>null\<close>, \<^verbatim>\<open>undefined\<close> or the empty string (it "has no
  value"), and present otherwise.
\<close>

datatype category =
  PENDING_SCHEDULED | PENDING_AWAITING_DECISION | NOT_YET_SCHEDULED | IGNORED

definition specPending :: "string option \<Rightarrow> bool" where
  "specPending status =
     (case status of
        None \<Rightarrow> True
      | Some s \<Rightarrow>
          s = [] \<or>
          s \<notin> {''Canceled'', ''Complete'', ''TRAN'', ''INVL'', ''IDNC'', ''1277'', ''OTHR'',
                ''ClmCX''})"

definition specCategory :: "('d::ord) helpers \<Rightarrow> PendingDetermination \<Rightarrow> category" where
  "specCategory h pd =
     (if specPending (determinationStatus pd) \<and> h_isValidDate h (scheduleDate pd) \<and>
         \<not> h_isDatePast h (h_parseConvertDate h (scheduleDate pd))
      then PENDING_SCHEDULED
      else if specPending (determinationStatus pd) \<and> h_isValidDate h (scheduleDate pd) \<and>
         h_isDatePast h (h_parseConvertDate h (scheduleDate pd))
      then PENDING_AWAITING_DECISION
      else if \<not> truthy (determinationStatus pd) \<and> \<not> truthy (scheduleDate pd) \<and>
         truthy (requestDate pd)
      then NOT_YET_SCHEDULED
      else IGNORED)"

text \<open>
  The same conditions with "absent" read as \<^verbatim>\<open>null\<close> or \<^verbatim>\<open>undefined\<close> only and "present"
  as any string: the reading under which a field that holds the empty string is not
  an absent field.
\<close>

definition strictCategory :: "('d::ord) helpers \<Rightarrow> PendingDetermination \<Rightarrow> category" where
  "strictCategory h pd =
     (if specPending (determinationStatus pd) \<and> h_isValidDate h (scheduleDate pd) \<and>
         \<not> h_isDatePast h (h_parseConvertDate h (scheduleDate pd))
      then PENDING_SCHEDULED
      else if specPending (determinationStatus pd) \<and> h_isValidDate h (scheduleDate pd) \<and>
         h_isDatePast h (h_parseConvertDate h (scheduleDate pd))
      then PENDING_AWAITING_DECISION
      else if determinationStatus pd = None \<and> scheduleDate pd = None \<and>
         requestDate pd \<noteq> None
      then NOT_YET_SCHEDULED
      else IGNORED)"

text \<open>
  The comparison of two scheduled records in the words of the specification: by the
  parsed date first, and on equal dates by the time slots, where only the answer
  \<^verbatim>\<open>true\<close> of \<^verbatim>\<open>isFirstTimeSlotEarlier\<close> makes the first record the earlier one.
\<close>

definition specEarlier ::
  "('d::ord) helpers \<Rightarrow> PendingDetermination \<Rightarrow> PendingDetermination \<Rightarrow> bool" where
  "specEarlier h p e =
     (dateLess (h_parseConvertDate h (scheduleDate p)) (h_parseConvertDate h (scheduleDate e)) \<or>
      (h_parseConvertDate h (scheduleDate p) = h_parseConvertDate h (scheduleDate e) \<and>
       h_isFirstTimeSlotEarlier h (timeSlotDesc p) (timeSlotDesc e) = Some True))"

text \<open>
  The selection among the scheduled records, in input order: the record found so far is
  kept unless the next one is earlier.
\<close>

definition specEarliest ::
  "('d::ord) helpers \<Rightarrow> PendingDetermination list \<Rightarrow> PendingDetermination option" where
  "specEarliest h cs =
     (case cs of
        [] \<Rightarrow> None
      | c # rest \<Rightarrow> Some (foldl (\<lambda>e p. if specEarlier h p e then p else e) c rest))"

text \<open>
  The hour of a time slot on the 24-hour clock, under the convention that 8 to 12 are
  hours of the morning and 1 to 7 hours of the afternoon.
\<close>

definition clock24 :: "nat \<Rightarrow> nat" where
  "clock24 hour = (if hour \<le> 7 then hour + 12 else hour)"

text \<open>
  The place of a time-slot description in the order of \<^verbatim>\<open>isFirstTimeSlotEarlier\<close>: the
  start of a parsed slot on the 24-hour clock, and a value after every hour for a
  description that does not parse.
\<close>

definition slotOrder :: "string option \<Rightarrow> nat" where
  "slotOrder text =
     (case parseTimeSlot text of None \<Rightarrow> 24 | Some slot \<Rightarrow> clock24 (rangeStart slot))"

text \<open>
  The update of \<^verbatim>\<open>earliestScheduled\<close> in the loop body: the new record replaces the one
  found so far when there is none yet or when it is scheduled strictly before it.
\<close>

definition keptEarliest ::
  "('d::ord) helpers \<Rightarrow> PendingDetermination option \<Rightarrow> PendingDetermination
     \<Rightarrow> PendingDetermination" where
  "keptEarliest h found pd =
     (case found of
        None \<Rightarrow> pd
      | Some e \<Rightarrow> if isScheduledStrictlyBefore h pd e then pd else e)"

section \<open>Sample records\<close>

text \<open>The day of the examples is 5 May 2020, the day the tests of the repository fix.\<close>

definition sampleToday :: "nat \<times> nat \<times> nat" where
  "sampleToday = (2020, 5, 5)"

definition scheduledJune :: PendingDetermination where
  "scheduledJune =
     \<lparr>determinationStatus = None, scheduleDate = Some ''2020-06-01T00:00:00'',
      requestDate = Some ''2020-04-01T00:00:00'', timeSlotDesc = Some ''10-12''\<rparr>"

definition scheduledMayAfternoon :: PendingDetermination where
  "scheduledMayAfternoon =
     \<lparr>determinationStatus = Some ''Scheduled'', scheduleDate = Some ''2020-05-20T00:00:00'',
      requestDate = Some ''2020-04-02T00:00:00'', timeSlotDesc = Some ''1-3''\<rparr>"

definition scheduledMayMorning :: PendingDetermination where
  "scheduledMayMorning =
     \<lparr>determinationStatus = Some [], scheduleDate = Some ''2020-05-20T00:00:00'',
      requestDate = None, timeSlotDesc = Some ''10-12''\<rparr>"

definition scheduledMayNoSlot :: PendingDetermination where
  "scheduledMayNoSlot =
     \<lparr>determinationStatus = None, scheduleDate = Some ''2020-05-20T00:00:00'',
      requestDate = None, timeSlotDesc = Some ''not a time slot''\<rparr>"

definition awaitingApril :: PendingDetermination where
  "awaitingApril =
     \<lparr>determinationStatus = None, scheduleDate = Some ''2020-04-01T00:00:00'',
      requestDate = Some ''2020-03-01T00:00:00'', timeSlotDesc = Some ''10-12''\<rparr>"

definition notYetScheduled :: PendingDetermination where
  "notYetScheduled =
     \<lparr>determinationStatus = None, scheduleDate = None,
      requestDate = Some ''2020-04-20T00:00:00'', timeSlotDesc = None\<rparr>"

definition completedRecord :: PendingDetermination where
  "completedRecord =
     \<lparr>determinationStatus = Some ''Complete'', scheduleDate = Some ''2030-01-01T00:00:00'',
      requestDate = Some ''2020-01-01T00:00:00'', timeSlotDesc = Some ''10-12''\<rparr>"

definition scheduledMayMorningTwin :: PendingDetermination where
  "scheduledMayMorningTwin =
     \<lparr>determinationStatus = Some ''complete'', scheduleDate = Some ''2020-05-20T00:00:00'',
      requestDate = Some ''2020-04-03T00:00:00'', timeSlotDesc = Some ''10-12''\<rparr>"

definition sampleList :: "PendingDetermination list" where
  "sampleList =
     [notYetScheduled, awaitingApril, scheduledJune, scheduledMayAfternoon, scheduledMayNoSlot,
      scheduledMayMorning, completedRecord, scheduledMayMorningTwin]"

definition sampleScheduled :: "PendingDetermination list" where
  "sampleScheduled =
     [scheduledJune, scheduledMayAfternoon, scheduledMayNoSlot, scheduledMayMorning,
      scheduledMayMorningTwin]"

text \<open>A record whose status and schedule date hold the empty string.\<close>

definition emptyFieldsRecord :: PendingDetermination where
  "emptyFieldsRecord =
     \<lparr>determinationStatus = Some [], scheduleDate = Some [],
      requestDate = Some ''2020-04-20T00:00:00'', timeSlotDesc = None\<rparr>"

text \<open>Received claims: a list of one record, and a list whose only element is null.\<close>

definition receivedSample :: "unit jsValue \<Rightarrow> unit receivedClaim" where
  "receivedSample details =
     \<lparr>receivedPendingDetermination = Some [Some completedRecord],
      receivedHasPendingWeeks = Some True,
      receivedHasCertificationWeeksAvailable = Some True,
      receivedClaimDetails = details\<rparr>"

definition nullElementClaim :: "unit receivedClaim" where
  "nullElementClaim =
     \<lparr>receivedPendingDetermination = Some [None],
      receivedHasPendingWeeks = Some False,
      receivedHasCertificationWeeksAvailable = Some True,
      receivedClaimDetails = JsObject ()\<rparr>"

definition sampleClaim :: "PendingDetermination list option \<Rightarrow> bool option \<Rightarrow> bool option
     \<Rightarrow> unit Claim" where
  "sampleClaim pds pendingWeeks weeksAvailable =
     \<lparr>claimPendingDetermination = pds, hasPendingWeeks = pendingWeeks,
      hasCertificationWeeksAvailable = weeksAvailable, claimDetails = None\<rparr>"

section \<open>The loop of identifyPendingDeterminationScenario\<close>

lemma isDeterminationStatusPending_spec:
  "isDeterminationStatusPending pd = specPending (determinationStatus pd)"
  by (auto simp: isDeterminationStatusPending_def specPending_def truthy_def arrayIncludes_def
      NonPendingDeterminationValues_def split: option.splits)

lemma loopBody_category:
  "loopBody h st pd =
     (case specCategory h pd of
        PENDING_SCHEDULED \<Rightarrow>
          st\<lparr>earliestScheduled := Some (keptEarliest h (earliestScheduled st) pd)\<rparr>
      | PENDING_AWAITING_DECISION \<Rightarrow> st\<lparr>hasAwaitingDecision := True\<rparr>
      | NOT_YET_SCHEDULED \<Rightarrow> st\<lparr>hasNotYetScheduled := True\<rparr>
      | IGNORED \<Rightarrow> st)"
  by (auto simp: loopBody_def specCategory_def keptEarliest_def isDeterminationStatusPending_spec
      split: option.splits)

lemma category_scheduled_iff:
  "(specCategory h pd = PENDING_SCHEDULED) =
     (isDeterminationStatusPending pd \<and> h_isValidDate h (scheduleDate pd) \<and>
      \<not> h_isDatePast h (h_parseConvertDate h (scheduleDate pd)))"
  by (simp add: specCategory_def isDeterminationStatusPending_spec)

lemma loop_awaiting:
  "hasAwaitingDecision (foldl (loopBody h) st xs) =
     (hasAwaitingDecision st \<or> (\<exists>p\<in>set xs. specCategory h p = PENDING_AWAITING_DECISION))"
  by (induction xs arbitrary: st) (auto simp: loopBody_category split: category.splits)

lemma loop_notYet:
  "hasNotYetScheduled (foldl (loopBody h) st xs) =
     (hasNotYetScheduled st \<or> (\<exists>p\<in>set xs. specCategory h p = NOT_YET_SCHEDULED))"
  by (induction xs arbitrary: st) (auto simp: loopBody_category split: category.splits)

lemma loop_earliest:
  "earliestScheduled (foldl (loopBody h) st xs) =
     foldl (\<lambda>found p. Some (keptEarliest h found p)) (earliestScheduled st)
       (filter (\<lambda>p. specCategory h p = PENDING_SCHEDULED) xs)"
  by (induction xs arbitrary: st) (auto simp: loopBody_category split: category.splits)

lemma kept_none_iff:
  "(foldl (\<lambda>found p. Some (keptEarliest h found p)) found0 cs = None) =
     (found0 = None \<and> cs = [])"
  by (induction cs arbitrary: found0) auto

lemma kept_member:
  "foldl (\<lambda>found p. Some (keptEarliest h found p)) found0 cs = Some e
     \<Longrightarrow> found0 = Some e \<or> e \<in> set cs"
  by (induction cs arbitrary: found0)
     (auto simp: keptEarliest_def split: option.splits if_splits)

text \<open>The result of the function, read off the categories of the records.\<close>

lemma identify_unfold:
  "identifyPendingDeterminationScenario h xs =
     (case foldl (\<lambda>found p. Some (keptEarliest h found p)) None
             (filter (\<lambda>p. specCategory h p = PENDING_SCHEDULED) xs) of
        Some e \<Rightarrow> Some \<lparr>scenarioType = Scenario2, pendingDetermination = Some e\<rparr>
      | None \<Rightarrow>
          if \<exists>p\<in>set xs. specCategory h p = PENDING_AWAITING_DECISION
          then Some \<lparr>scenarioType = Scenario3, pendingDetermination = None\<rparr>
          else if \<exists>p\<in>set xs. specCategory h p = NOT_YET_SCHEDULED
          then Some \<lparr>scenarioType = Scenario1, pendingDetermination = None\<rparr>
          else None)"
  by (simp add: identifyPendingDeterminationScenario_def Let_def loop_earliest loop_awaiting
      loop_notYet initialState_def split: option.splits)

section \<open>The comparison of two scheduled records\<close>

lemma before_spec:
  fixes h :: "('d::linorder) helpers"
  assumes "h_parseConvertDate h (scheduleDate p) \<noteq> None"
    and "h_parseConvertDate h (scheduleDate e) \<noteq> None"
  shows "isScheduledStrictlyBefore h p e = specEarlier h p e"
  using assms
  by (auto simp: isScheduledStrictlyBefore_def specEarlier_def dateLess_def Let_def
      split: option.splits)

lemma specEarlier_asym:
  fixes h :: "('d::linorder) helpers"
  assumes slot: "\<And>a b. h_isFirstTimeSlotEarlier h a b = Some True
            \<Longrightarrow> h_isFirstTimeSlotEarlier h b a \<noteq> Some True"
    and "specEarlier h p e"
  shows "\<not> specEarlier h e p"
  using assms(2) slot [of "timeSlotDesc p" "timeSlotDesc e"]
  by (auto simp: specEarlier_def dateLess_def split: option.splits)

lemma specEarlier_negtrans:
  fixes h :: "('d::linorder) helpers"
  assumes slot: "\<And>a b c. h_isFirstTimeSlotEarlier h a c = Some True
            \<Longrightarrow> h_isFirstTimeSlotEarlier h a b = Some True \<or>
                h_isFirstTimeSlotEarlier h b c = Some True"
    and "h_parseConvertDate h (scheduleDate a) \<noteq> None"
    and "h_parseConvertDate h (scheduleDate b) \<noteq> None"
    and "h_parseConvertDate h (scheduleDate c) \<noteq> None"
    and "specEarlier h a c"
  shows "specEarlier h a b \<or> specEarlier h b c"
  using assms(2-5) slot [of "timeSlotDesc a" "timeSlotDesc c" "timeSlotDesc b"]
  by (auto simp: specEarlier_def dateLess_def split: option.splits)

text \<open>On records whose dates parse, the loop keeps what the specification's selection keeps.\<close>

lemma kept_spec:
  fixes h :: "('d::linorder) helpers"
  assumes "h_parseConvertDate h (scheduleDate e) \<noteq> None"
    and "\<forall>c\<in>set cs. h_parseConvertDate h (scheduleDate c) \<noteq> None"
  shows "foldl (\<lambda>found p. Some (keptEarliest h found p)) (Some e) cs =
     Some (foldl (\<lambda>e p. if specEarlier h p e then p else e) e cs)"
  using assms
proof (induction cs arbitrary: e)
  case Nil
  show ?case by simp
next
  case (Cons c cs)
  have c: "h_parseConvertDate h (scheduleDate c) \<noteq> None" using Cons.prems(2) by simp
  have step: "keptEarliest h (Some e) c = (if specEarlier h c e then c else e)"
    by (simp add: keptEarliest_def before_spec [OF c Cons.prems(1)])
  have next_dated:
    "h_parseConvertDate h (scheduleDate (if specEarlier h c e then c else e)) \<noteq> None"
    using c Cons.prems(1) by simp
  have rest: "\<forall>c\<in>set cs. h_parseConvertDate h (scheduleDate c) \<noteq> None"
    using Cons.prems(2) by simp
  show ?case
    using Cons.IH [OF next_dated rest] by (simp add: step)
qed

text \<open>
  A pass that keeps the element found so far unless the next one is smaller ends on the
  first minimal element, when the relation is asymmetric and its complement transitive.
\<close>

lemma first_minimum:
  fixes R :: "'a \<Rightarrow> 'a \<Rightarrow> bool"
  assumes asym: "\<And>a b. a \<in> S \<Longrightarrow> b \<in> S \<Longrightarrow> R a b \<Longrightarrow> \<not> R b a"
    and nt: "\<And>a b c. a \<in> S \<Longrightarrow> b \<in> S \<Longrightarrow> c \<in> S \<Longrightarrow> R a c \<Longrightarrow> R a b \<or> R b c"
  shows "e \<in> S \<Longrightarrow> set cs \<subseteq> S \<Longrightarrow> r = foldl (\<lambda>e p. if R p e then p else e) e cs \<Longrightarrow>
    \<exists>pre post. e # cs = pre @ r # post \<and> (\<forall>c\<in>set pre. R r c) \<and>
      (\<forall>c\<in>set (e # cs). \<not> R c r)"
proof (induction cs arbitrary: e r)
  case Nil
  have "\<not> R e e" using asym [OF Nil(1) Nil(1)] by blast
  then have "e # [] = [] @ r # [] \<and> (\<forall>c\<in>set []. R r c) \<and> (\<forall>c\<in>set (e # []). \<not> R c r)"
    using Nil(3) by simp
  then show ?case by (intro exI)
next
  case (Cons c cs)
  define e' where "e' = (if R c e then c else e)"
  have cS: "c \<in> S" and csS: "set cs \<subseteq> S" and eS: "e \<in> S" using Cons.prems by simp_all
  have e'S: "e' \<in> S" using cS eS by (simp add: e'_def)
  have fold: "r = foldl (\<lambda>e p. if R p e then p else e) e' cs"
    using Cons.prems(3) by (simp add: e'_def)
  from Cons.IH [OF e'S csS fold] obtain pre post where
    dec: "e' # cs = pre @ r # post" and
    before: "\<forall>x\<in>set pre. R r x" and
    least: "\<forall>x\<in>set (e' # cs). \<not> R x r"
    by blast
  have "r \<in> set (e' # cs)" using dec by simp
  then have rS: "r \<in> S" using e'S csS by auto
  show ?case
  proof (cases "R c e")
    case True
    then have e': "e' = c" by (simp add: e'_def)
    have ncr: "\<not> R c r" using least e' by simp
    have re: "R r e" using nt [OF cS rS eS True] ncr by blast
    have ner: "\<not> R e r" using asym [OF rS eS re] .
    have "e # c # cs = (e # pre) @ r # post \<and> (\<forall>x\<in>set (e # pre). R r x) \<and>
        (\<forall>x\<in>set (e # c # cs). \<not> R x r)"
      using dec e' before re least ner by simp
    then show ?thesis by (intro exI)
  next
    case False
    then have e': "e' = e" by (simp add: e'_def)
    show ?thesis
    proof (cases pre)
      case Nil
      then have r: "r = e" using dec e' by simp
      have ncr: "\<not> R c r" using False r by simp
      have "e # c # cs = [] @ r # (c # cs) \<and> (\<forall>x\<in>set []. R r x) \<and>
          (\<forall>x\<in>set (e # c # cs). \<not> R x r)"
        using r least ncr e' by simp
      then show ?thesis by (intro exI)
    next
      case (Cons x pre')
      then have x: "x = e" and cs: "cs = pre' @ r # post" using dec e' by simp_all
      have re: "R r e" using before Cons x by simp
      have rc: "R r c" using nt [OF rS cS eS re] False by blast
      have ncr: "\<not> R c r" using asym [OF rS cS rc] .
      have l1: "\<forall>y\<in>set (e # c # cs). \<not> R y r" using least ncr e' by simp
      have b1: "\<forall>y\<in>set (e # c # pre'). R r y" using before Cons x rc by simp
      have d1: "e # c # cs = (e # c # pre') @ r # post" using cs by simp
      from d1 b1 l1 have "e # c # cs = (e # c # pre') @ r # post \<and>
          (\<forall>y\<in>set (e # c # pre'). R r y) \<and> (\<forall>y\<in>set (e # c # cs). \<not> R y r)"
        by (intro conjI)
      then show ?thesis by (intro exI)
    qed
  qed
qed

section \<open>The helpers of the specification\<close>

lemma parseTimeSlot_range:
  "parseTimeSlot text = Some slot \<Longrightarrow>
     1 \<le> rangeStart slot \<and> rangeStart slot \<le> 12 \<and> 1 \<le> rangeEnd slot \<and> rangeEnd slot \<le> 12"
  by (auto simp: parseTimeSlot_def split: option.splits prod.splits if_splits)

lemma earlier_clock24:
  assumes "parseTimeSlot textA = Some a" and "parseTimeSlot textB = Some b"
  shows "isFirstTimeSlotEarlier textA textB =
     Some (clock24 (rangeStart a) < clock24 (rangeStart b))"
  using assms parseTimeSlot_range [OF assms(1)] parseTimeSlot_range [OF assms(2)]
  by (auto simp: isFirstTimeSlotEarlier_def samePeriod_def isAm_def clock24_def)

lemma earlier_iff_order:
  "(isFirstTimeSlotEarlier textA textB = Some True) = (slotOrder textA < slotOrder textB)"
proof (cases "parseTimeSlot textA")
  case None
  show ?thesis
  proof (cases "parseTimeSlot textB")
    case None
    then show ?thesis
      using \<open>parseTimeSlot textA = None\<close>
      by (simp add: isFirstTimeSlotEarlier_def slotOrder_def)
  next
    case (Some b)
    then show ?thesis
      using \<open>parseTimeSlot textA = None\<close> parseTimeSlot_range [OF Some]
      by (simp add: isFirstTimeSlotEarlier_def slotOrder_def clock24_def)
  qed
next
  case (Some a)
  show ?thesis
  proof (cases "parseTimeSlot textB")
    case None
    then show ?thesis
      using Some parseTimeSlot_range [OF Some]
      by (simp add: isFirstTimeSlotEarlier_def slotOrder_def clock24_def)
  next
    case (Some b)
    then show ?thesis
      using \<open>parseTimeSlot textA = Some a\<close>
        earlier_clock24 [OF \<open>parseTimeSlot textA = Some a\<close> Some]
      by (simp add: slotOrder_def)
  qed
qed

lemma spec_slot_asym:
  "h_isFirstTimeSlotEarlier (specHelpers today) a b = Some True
     \<Longrightarrow> h_isFirstTimeSlotEarlier (specHelpers today) b a \<noteq> Some True"
  by (simp add: specHelpers_def earlier_iff_order)

lemma spec_slot_negtrans:
  "h_isFirstTimeSlotEarlier (specHelpers today) a c = Some True \<Longrightarrow>
     h_isFirstTimeSlotEarlier (specHelpers today) a b = Some True \<or>
     h_isFirstTimeSlotEarlier (specHelpers today) b c = Some True"
  by (simp add: specHelpers_def earlier_iff_order) linarith

lemma spec_valid_parses:
  "h_isValidDate (specHelpers today) v \<Longrightarrow> h_parseConvertDate (specHelpers today) v \<noteq> None"
  by (cases "parseConvertDate v") (simp_all add: specHelpers_def isValidDate_def)

lemma spec_absent_invalid:
  "\<not> truthy v \<Longrightarrow> \<not> h_isValidDate (specHelpers today) v"
  by (cases v)
     (simp_all add: specHelpers_def truthy_def isValidDate_def parseConvertDate_def
        parseDate_def)

section \<open>The sample records, evaluated\<close>

lemma category_scheduledJune:
  "specCategory (specHelpers sampleToday) scheduledJune = PENDING_SCHEDULED"
  by code_simp

lemma category_awaitingApril:
  "specCategory (specHelpers sampleToday) awaitingApril = PENDING_AWAITING_DECISION"
  by code_simp

lemma category_notYetScheduled:
  "specCategory (specHelpers sampleToday) notYetScheduled = NOT_YET_SCHEDULED"
  by code_simp

lemma category_completedRecord:
  "specCategory (specHelpers sampleToday) completedRecord = IGNORED"
  by code_simp

lemma sampleList_scheduled:
  "filter (\<lambda>p. specCategory (specHelpers sampleToday) p = PENDING_SCHEDULED) sampleList
     = sampleScheduled"
  by code_simp

lemma sampleList_result:
  "identifyPendingDeterminationScenario (specHelpers sampleToday) sampleList =
     Some \<lparr>scenarioType = Scenario2, pendingDetermination = Some scheduledMayMorning\<rparr>"
  by code_simp

lemma awaiting_result:
  "identifyPendingDeterminationScenario (specHelpers sampleToday)
       [notYetScheduled, awaitingApril] =
     Some \<lparr>scenarioType = Scenario3, pendingDetermination = None\<rparr>"
  by code_simp

lemma completed_none_applicable:
  "identifyPendingDeterminationScenario (specHelpers sampleToday) [completedRecord] = None"
  by code_simp

lemma parse_not_a_time_slot: "parseTimeSlot (Some ''not a time slot'') = None"
  by code_simp

lemma parse_10_12:
  "parseTimeSlot (Some ''10-12'') = Some \<lparr>rangeStart = 10, rangeEnd = 12\<rparr>"
  by code_simp

lemma parse_1_3: "parseTimeSlot (Some ''1-3'') = Some \<lparr>rangeStart = 1, rangeEnd = 3\<rparr>"
  by code_simp

lemma parse_en_dash:
  "parseTimeSlot (Some [CHR ''1'', CHR ''0'', CHR 0xE2, CHR 0x80, CHR 0x93, CHR ''1'', CHR ''2''])
     = Some \<lparr>rangeStart = 10, rangeEnd = 12\<rparr>"
  by code_simp

lemma parse_em_dash:
  "parseTimeSlot (Some [CHR ''1'', CHR ''0'', CHR 0xE2, CHR 0x80, CHR 0x94, CHR ''1'', CHR ''2''])
     = Some \<lparr>rangeStart = 10, rangeEnd = 12\<rparr>"
  by code_simp

lemma parse_nonsense: "parseDate ''nonsense'' = None"
  by code_simp

lemma parse_sample_day: "parseDate ''2020-05-05T00:00:00'' = Some (2020, 5, 5, 0, 0, 0)"
  by code_simp

lemma sample_day_not_before_min: "\<not> ((2020, 5, 5, 0, 0, 0) :: calendarTime) < minDate"
  by code_simp

lemma year_one_before_min: "((1, 1, 1, 0, 0, 0) :: calendarTime) < minDate"
  by code_simp

section \<open>The classifier of the determinations\<close>

text \<open>
  C3: every record falls in exactly one of four categories. Its status is pending iff
  it is absent or empty or is not, letter for letter, one of the eight values that are
  not pending. A pending record with a valid schedule date that is not past is
  PENDING_SCHEDULED, and the loop body offers it as the earliest scheduled record; with
  a valid date that is past it is PENDING_AWAITING_DECISION, and the loop body sets
  \<^verbatim>\<open>hasAwaitingDecision\<close>; a record whose status and schedule date are each absent or
  empty (\<^verbatim>\<open>null\<close>, \<^verbatim>\<open>undefined\<close> or the empty string) and whose request date is a
  non-empty string is NOT_YET_SCHEDULED, and the loop body sets \<^verbatim>\<open>hasNotYetScheduled\<close>;
  every other record, a pending record with a non-empty schedule date that is not valid
  among them, is IGNORED, and the loop body leaves the state as it is. \<^verbatim>\<open>isValidDate\<close>
  rejects an absent or empty date.
\<close>

theorem record_classification:
  assumes absent_invalid: "\<And>v. \<not> truthy v \<Longrightarrow> \<not> h_isValidDate h v"
  shows
    "isDeterminationStatusPending pd =
       (determinationStatus pd = None \<or> determinationStatus pd = Some [] \<or>
        (\<exists>s. determinationStatus pd = Some s \<and>
           s \<notin> {''Canceled'', ''Complete'', ''TRAN'', ''INVL'', ''IDNC'', ''1277'', ''OTHR'',
                 ''ClmCX''})) \<and>
     (isDeterminationStatusPending pd \<and> h_isValidDate h (scheduleDate pd) \<and>
      \<not> h_isDatePast h (h_parseConvertDate h (scheduleDate pd)) \<longrightarrow>
        specCategory h pd = PENDING_SCHEDULED \<and>
        loopBody h st pd =
          st\<lparr>earliestScheduled := Some (keptEarliest h (earliestScheduled st) pd)\<rparr>) \<and>
     (isDeterminationStatusPending pd \<and> h_isValidDate h (scheduleDate pd) \<and>
      h_isDatePast h (h_parseConvertDate h (scheduleDate pd)) \<longrightarrow>
        specCategory h pd = PENDING_AWAITING_DECISION \<and>
        loopBody h st pd = st\<lparr>hasAwaitingDecision := True\<rparr>) \<and>
     (\<not> truthy (determinationStatus pd) \<and> \<not> truthy (scheduleDate pd) \<and>
      truthy (requestDate pd) \<longrightarrow>
        specCategory h pd = NOT_YET_SCHEDULED \<and>
        loopBody h st pd = st\<lparr>hasNotYetScheduled := True\<rparr>) \<and>
     (\<not> (isDeterminationStatusPending pd \<and> h_isValidDate h (scheduleDate pd)) \<and>
      \<not> (\<not> truthy (determinationStatus pd) \<and> \<not> truthy (scheduleDate pd) \<and>
         truthy (requestDate pd)) \<longrightarrow>
        specCategory h pd = IGNORED \<and> loopBody h st pd = st)"
proof -
  have pending: "isDeterminationStatusPending pd =
       (determinationStatus pd = None \<or> determinationStatus pd = Some [] \<or>
        (\<exists>s. determinationStatus pd = Some s \<and>
           s \<notin> {''Canceled'', ''Complete'', ''TRAN'', ''INVL'', ''IDNC'', ''1277'', ''OTHR'',
                 ''ClmCX''}))"
    by (cases "determinationStatus pd")
       (simp_all add: isDeterminationStatusPending_spec specPending_def)
  have sched: "isDeterminationStatusPending pd \<and> h_isValidDate h (scheduleDate pd) \<and>
      \<not> h_isDatePast h (h_parseConvertDate h (scheduleDate pd)) \<longrightarrow>
        specCategory h pd = PENDING_SCHEDULED \<and>
        loopBody h st pd =
          st\<lparr>earliestScheduled := Some (keptEarliest h (earliestScheduled st) pd)\<rparr>"
    by (simp add: loopBody_category)
       (simp add: specCategory_def isDeterminationStatusPending_spec)
  have await: "isDeterminationStatusPending pd \<and> h_isValidDate h (scheduleDate pd) \<and>
      h_isDatePast h (h_parseConvertDate h (scheduleDate pd)) \<longrightarrow>
        specCategory h pd = PENDING_AWAITING_DECISION \<and>
        loopBody h st pd = st\<lparr>hasAwaitingDecision := True\<rparr>"
    by (simp add: loopBody_category)
       (simp add: specCategory_def isDeterminationStatusPending_spec)
  have notyet: "\<not> truthy (determinationStatus pd) \<and> \<not> truthy (scheduleDate pd) \<and>
      truthy (requestDate pd) \<longrightarrow>
        specCategory h pd = NOT_YET_SCHEDULED \<and>
        loopBody h st pd = st\<lparr>hasNotYetScheduled := True\<rparr>"
    using absent_invalid [of "scheduleDate pd"]
    by (simp add: loopBody_category) (simp add: specCategory_def)
  have ignored: "\<not> (isDeterminationStatusPending pd \<and> h_isValidDate h (scheduleDate pd)) \<and>
      \<not> (\<not> truthy (determinationStatus pd) \<and> \<not> truthy (scheduleDate pd) \<and>
         truthy (requestDate pd)) \<longrightarrow>
        specCategory h pd = IGNORED \<and> loopBody h st pd = st"
    by (simp add: loopBody_category)
       (auto simp: specCategory_def isDeterminationStatusPending_spec)
  from pending sched await notyet ignored show ?thesis by blast
qed

lemma sample_pending_facts:
  "isDeterminationStatusPending scheduledJune"
  "isValidDate (scheduleDate scheduledJune)"
  "\<not> isDatePast sampleToday (parseConvertDate (scheduleDate scheduledJune))"
  "isDeterminationStatusPending awaitingApril"
  "isValidDate (scheduleDate awaitingApril)"
  "isDatePast sampleToday (parseConvertDate (scheduleDate awaitingApril))"
  "isDeterminationStatusPending scheduledMayMorningTwin"
  "\<not> isDeterminationStatusPending completedRecord"
  by code_simp+

lemma sample_truthy_facts:
  "\<not> truthy (determinationStatus notYetScheduled)"
  "\<not> truthy (scheduleDate notYetScheduled)"
  "truthy (requestDate notYetScheduled)"
  "truthy (determinationStatus completedRecord)"
  "\<not> truthy (determinationStatus emptyFieldsRecord)"
  "\<not> truthy (scheduleDate emptyFieldsRecord)"
  "truthy (requestDate emptyFieldsRecord)"
  by code_simp+

theorem record_classification_witness:
  "isDeterminationStatusPending scheduledMayMorningTwin \<and>
   \<not> isDeterminationStatusPending completedRecord \<and>
   specCategory (specHelpers sampleToday) scheduledJune = PENDING_SCHEDULED \<and>
   loopBody (specHelpers sampleToday) initialState scheduledJune =
     initialState\<lparr>earliestScheduled := Some scheduledJune\<rparr> \<and>
   specCategory (specHelpers sampleToday) awaitingApril = PENDING_AWAITING_DECISION \<and>
   loopBody (specHelpers sampleToday) initialState awaitingApril =
     initialState\<lparr>hasAwaitingDecision := True\<rparr> \<and>
   specCategory (specHelpers sampleToday) notYetScheduled = NOT_YET_SCHEDULED \<and>
   loopBody (specHelpers sampleToday) initialState notYetScheduled =
     initialState\<lparr>hasNotYetScheduled := True\<rparr> \<and>
   specCategory (specHelpers sampleToday) completedRecord = IGNORED \<and>
   loopBody (specHelpers sampleToday) initialState completedRecord = initialState \<and>
   specCategory (specHelpers sampleToday) emptyFieldsRecord = NOT_YET_SCHEDULED \<and>
   loopBody (specHelpers sampleToday) initialState emptyFieldsRecord =
     initialState\<lparr>hasNotYetScheduled := True\<rparr>"
proof -
  note rule = record_classification [of "specHelpers sampleToday", OF spec_absent_invalid]
  have kept: "keptEarliest (specHelpers sampleToday) (earliestScheduled initialState)
      scheduledJune = scheduledJune"
    by (simp add: keptEarliest_def initialState_def)
  have june: "specCategory (specHelpers sampleToday) scheduledJune = PENDING_SCHEDULED \<and>
      loopBody (specHelpers sampleToday) initialState scheduledJune =
        initialState\<lparr>earliestScheduled := Some scheduledJune\<rparr>"
    using rule [of scheduledJune initialState] sample_pending_facts kept
    by (simp add: specHelpers_def)
  have april: "specCategory (specHelpers sampleToday) awaitingApril =
        PENDING_AWAITING_DECISION \<and>
      loopBody (specHelpers sampleToday) initialState awaitingApril =
        initialState\<lparr>hasAwaitingDecision := True\<rparr>"
    using rule [of awaitingApril initialState] sample_pending_facts
    by (simp add: specHelpers_def)
  have notyet: "specCategory (specHelpers sampleToday) notYetScheduled = NOT_YET_SCHEDULED \<and>
      loopBody (specHelpers sampleToday) initialState notYetScheduled =
        initialState\<lparr>hasNotYetScheduled := True\<rparr>"
    using rule [of notYetScheduled initialState] sample_truthy_facts by simp
  have completed: "specCategory (specHelpers sampleToday) completedRecord = IGNORED \<and>
      loopBody (specHelpers sampleToday) initialState completedRecord = initialState"
    using rule [of completedRecord initialState] sample_pending_facts sample_truthy_facts
    by simp
  have empty: "specCategory (specHelpers sampleToday) emptyFieldsRecord = NOT_YET_SCHEDULED \<and>
      loopBody (specHelpers sampleToday) initialState emptyFieldsRecord =
        initialState\<lparr>hasNotYetScheduled := True\<rparr>"
    using rule [of emptyFieldsRecord initialState] sample_truthy_facts by simp
  from june april notyet completed empty sample_pending_facts(7,8) show ?thesis by simp
qed

lemma emptyFields_facts:
  "isDeterminationStatusPending emptyFieldsRecord"
  "\<not> isValidDate (scheduleDate emptyFieldsRecord)"
  "parseConvertDate (scheduleDate emptyFieldsRecord) = None"
  "strictCategory (specHelpers sampleToday) emptyFieldsRecord = IGNORED"
  "loopBody (specHelpers sampleToday) initialState emptyFieldsRecord =
     initialState\<lparr>hasNotYetScheduled := True\<rparr>"
  "identifyPendingDeterminationScenario (specHelpers sampleToday) [emptyFieldsRecord] =
     Some \<lparr>scenarioType = Scenario1, pendingDetermination = None\<rparr>"
  by code_simp+

theorem record_classification_counterexample:
  "isDeterminationStatusPending emptyFieldsRecord \<and>
   \<not> isValidDate (scheduleDate emptyFieldsRecord) \<and>
   parseConvertDate (scheduleDate emptyFieldsRecord) = None \<and>
   strictCategory (specHelpers sampleToday) emptyFieldsRecord = IGNORED \<and>
   loopBody (specHelpers sampleToday) initialState emptyFieldsRecord =
     initialState\<lparr>hasNotYetScheduled := True\<rparr> \<and>
   loopBody (specHelpers sampleToday) initialState emptyFieldsRecord \<noteq> initialState \<and>
   identifyPendingDeterminationScenario (specHelpers sampleToday) [emptyFieldsRecord] =
     Some \<lparr>scenarioType = Scenario1, pendingDetermination = None\<rparr>"
proof -
  have changed:
    "loopBody (specHelpers sampleToday) initialState emptyFieldsRecord \<noteq> initialState"
    by (subst emptyFields_facts(5)) (simp add: initialState_def)
  from emptyFields_facts changed show ?thesis by (intro conjI)
qed

text \<open>
  C1: the scenario of the result follows the precedence 2 over 3 over 1. With at least
  one PENDING_SCHEDULED record it is Scenario 2; otherwise, with at least one
  PENDING_AWAITING_DECISION record, Scenario 3; otherwise, with at least one
  NOT_YET_SCHEDULED record, Scenario 1; otherwise the function returns null.
\<close>

theorem scenario_precedence:
  "map_option scenarioType (identifyPendingDeterminationScenario h xs) =
     (if \<exists>p\<in>set xs. specCategory h p = PENDING_SCHEDULED then Some Scenario2
      else if \<exists>p\<in>set xs. specCategory h p = PENDING_AWAITING_DECISION then Some Scenario3
      else if \<exists>p\<in>set xs. specCategory h p = NOT_YET_SCHEDULED then Some Scenario1
      else None)"
proof (cases "filter (\<lambda>p. specCategory h p = PENDING_SCHEDULED) xs = []")
  case True
  then have none: "\<not> (\<exists>p\<in>set xs. specCategory h p = PENDING_SCHEDULED)"
    by (simp add: filter_empty_conv)
  from True show ?thesis
    unfolding identify_unfold using none by simp
next
  case False
  then have some: "\<exists>p\<in>set xs. specCategory h p = PENDING_SCHEDULED"
    by (simp add: filter_empty_conv)
  from False obtain e where
    "foldl (\<lambda>found p. Some (keptEarliest h found p)) None
       (filter (\<lambda>p. specCategory h p = PENDING_SCHEDULED) xs) = Some e"
    using kept_none_iff [of h None "filter (\<lambda>p. specCategory h p = PENDING_SCHEDULED) xs"]
    by (cases "foldl (\<lambda>found p. Some (keptEarliest h found p)) None
       (filter (\<lambda>p. specCategory h p = PENDING_SCHEDULED) xs)") auto
  then show ?thesis
    unfolding identify_unfold using some by simp
qed

theorem scenario_precedence_witness:
  "specCategory (specHelpers sampleToday) scheduledJune = PENDING_SCHEDULED \<and>
   specCategory (specHelpers sampleToday) awaitingApril = PENDING_AWAITING_DECISION \<and>
   specCategory (specHelpers sampleToday) notYetScheduled = NOT_YET_SCHEDULED \<and>
   specCategory (specHelpers sampleToday) completedRecord = IGNORED \<and>
   map_option scenarioType (identifyPendingDeterminationScenario (specHelpers sampleToday)
       [notYetScheduled, awaitingApril, scheduledJune]) = Some Scenario2 \<and>
   map_option scenarioType (identifyPendingDeterminationScenario (specHelpers sampleToday)
       [notYetScheduled, scheduledJune]) = Some Scenario2 \<and>
   map_option scenarioType (identifyPendingDeterminationScenario (specHelpers sampleToday)
       [notYetScheduled, awaitingApril]) = Some Scenario3 \<and>
   map_option scenarioType (identifyPendingDeterminationScenario (specHelpers sampleToday)
       [completedRecord, notYetScheduled]) = Some Scenario1 \<and>
   identifyPendingDeterminationScenario (specHelpers sampleToday) [completedRecord] = None"
  using
    scenario_precedence [of "specHelpers sampleToday"
      "[notYetScheduled, awaitingApril, scheduledJune]"]
    scenario_precedence [of "specHelpers sampleToday" "[notYetScheduled, scheduledJune]"]
    scenario_precedence [of "specHelpers sampleToday" "[notYetScheduled, awaitingApril]"]
    scenario_precedence [of "specHelpers sampleToday" "[completedRecord, notYetScheduled]"]
    scenario_precedence [of "specHelpers sampleToday" "[completedRecord]"]
    category_scheduledJune category_awaitingApril category_notYetScheduled
    category_completedRecord
  by simp

text \<open>
  C2: when the list holds at least one PENDING_SCHEDULED record, and the dates that
  \<^verbatim>\<open>isValidDate\<close> accepts parse and the answer \<^verbatim>\<open>true\<close> of \<^verbatim>\<open>isFirstTimeSlotEarlier\<close> is an
  order of the descriptions (asymmetric, with a transitive complement), the result is
  Scenario 2 and carries the record that the selection of the specification keeps. On
  the scheduled records \<^verbatim>\<open>isScheduledStrictlyBefore\<close> compares the parsed dates first and
  on equal dates asks \<^verbatim>\<open>isFirstTimeSlotEarlier\<close>, and any other answer than \<^verbatim>\<open>true\<close> keeps
  the record found so far. No scheduled record is earlier than the carried one, and the
  carried one is earlier than every scheduled record before it in the list: among the
  records that tie for the earliest schedule the first in input order is carried.
\<close>

theorem earliest_scheduled_carried:
  fixes h :: "('d::linorder) helpers"
  assumes valid_parses: "\<And>v. h_isValidDate h v \<Longrightarrow> h_parseConvertDate h v \<noteq> None"
    and slot_asym: "\<And>a b. h_isFirstTimeSlotEarlier h a b = Some True
            \<Longrightarrow> h_isFirstTimeSlotEarlier h b a \<noteq> Some True"
    and slot_negtrans: "\<And>a b c. h_isFirstTimeSlotEarlier h a c = Some True
            \<Longrightarrow> h_isFirstTimeSlotEarlier h a b = Some True \<or>
                h_isFirstTimeSlotEarlier h b c = Some True"
    and cs: "cs = filter (\<lambda>p. specCategory h p = PENDING_SCHEDULED) xs"
    and nonempty: "cs \<noteq> []"
  shows "\<exists>r pre post.
     identifyPendingDeterminationScenario h xs =
       Some \<lparr>scenarioType = Scenario2, pendingDetermination = Some r\<rparr> \<and>
     specEarliest h cs = Some r \<and>
     cs = pre @ r # post \<and>
     (\<forall>c\<in>set cs. \<not> specEarlier h c r) \<and>
     (\<forall>c\<in>set pre. specEarlier h r c) \<and>
     (\<forall>a\<in>set cs. \<forall>b\<in>set cs. isScheduledStrictlyBefore h a b = specEarlier h a b)"
proof -
  define S where
    "S = {p :: PendingDetermination. h_parseConvertDate h (scheduleDate p) \<noteq> None}"
  have dated: "\<And>c. c \<in> set cs \<Longrightarrow> c \<in> S"
  proof -
    fix c assume "c \<in> set cs"
    then have "specCategory h c = PENDING_SCHEDULED" using cs by simp
    then have "h_isValidDate h (scheduleDate c)" by (simp add: category_scheduled_iff)
    then show "c \<in> S" using valid_parses by (simp add: S_def)
  qed
  from nonempty obtain c0 rest where split: "cs = c0 # rest" by (cases cs) auto
  define r where "r = foldl (\<lambda>e p. if specEarlier h p e then p else e) c0 rest"
  have c0S: "c0 \<in> S" and restS: "set rest \<subseteq> S" using dated split by auto
  have asym: "\<And>a b. a \<in> S \<Longrightarrow> b \<in> S \<Longrightarrow> specEarlier h a b \<Longrightarrow> \<not> specEarlier h b a"
    using specEarlier_asym [OF slot_asym] by blast
  have nt: "\<And>a b c. a \<in> S \<Longrightarrow> b \<in> S \<Longrightarrow> c \<in> S \<Longrightarrow> specEarlier h a c
      \<Longrightarrow> specEarlier h a b \<or> specEarlier h b c"
    using specEarlier_negtrans [OF slot_negtrans] by (simp add: S_def)
  from first_minimum [of S "specEarlier h", OF asym nt c0S restS r_def]
  obtain pre post where
    dec: "c0 # rest = pre @ r # post" and
    before: "\<forall>c\<in>set pre. specEarlier h r c" and
    least: "\<forall>c\<in>set (c0 # rest). \<not> specEarlier h c r"
    by blast
  have found: "foldl (\<lambda>found p. Some (keptEarliest h found p)) None cs = Some r"
    using kept_spec [of h c0 rest] c0S restS
    by (auto simp: split keptEarliest_def r_def S_def)
  have result: "identifyPendingDeterminationScenario h xs =
       Some \<lparr>scenarioType = Scenario2, pendingDetermination = Some r\<rparr>"
    using found by (simp add: identify_unfold cs [symmetric])
  have spec: "specEarliest h cs = Some r"
    by (simp add: specEarliest_def split r_def)
  have compare: "\<forall>a\<in>set cs. \<forall>b\<in>set cs. isScheduledStrictlyBefore h a b = specEarlier h a b"
    using dated before_spec [of h] by (simp add: S_def)
  from result spec dec before least compare
  have "identifyPendingDeterminationScenario h xs =
       Some \<lparr>scenarioType = Scenario2, pendingDetermination = Some r\<rparr> \<and>
     specEarliest h cs = Some r \<and>
     cs = pre @ r # post \<and>
     (\<forall>c\<in>set cs. \<not> specEarlier h c r) \<and>
     (\<forall>c\<in>set pre. specEarlier h r c) \<and>
     (\<forall>a\<in>set cs. \<forall>b\<in>set cs. isScheduledStrictlyBefore h a b = specEarlier h a b)"
    by (simp add: split)
  then show ?thesis by (intro exI)
qed

theorem earliest_scheduled_carried_witness:
  "sampleScheduled =
     filter (\<lambda>p. specCategory (specHelpers sampleToday) p = PENDING_SCHEDULED) sampleList \<and>
   sampleScheduled \<noteq> [] \<and>
   identifyPendingDeterminationScenario (specHelpers sampleToday) sampleList =
     Some \<lparr>scenarioType = Scenario2, pendingDetermination = Some scheduledMayMorning\<rparr> \<and>
   specEarliest (specHelpers sampleToday) sampleScheduled = Some scheduledMayMorning \<and>
   \<not> specEarlier (specHelpers sampleToday) scheduledMayMorningTwin scheduledMayMorning \<and>
   \<not> specEarlier (specHelpers sampleToday) scheduledMayAfternoon scheduledMayMorning \<and>
   (\<exists>pre post. sampleScheduled = pre @ scheduledMayMorning # post \<and>
      (\<forall>c\<in>set pre. specEarlier (specHelpers sampleToday) scheduledMayMorning c))"
proof -
  have cs: "sampleScheduled =
     filter (\<lambda>p. specCategory (specHelpers sampleToday) p = PENDING_SCHEDULED) sampleList"
    using sampleList_scheduled by simp
  have nonempty: "sampleScheduled \<noteq> []" by (simp add: sampleScheduled_def)
  from earliest_scheduled_carried [of "specHelpers sampleToday" sampleScheduled sampleList,
      OF spec_valid_parses spec_slot_asym spec_slot_negtrans cs nonempty]
  obtain r pre post where
    result: "identifyPendingDeterminationScenario (specHelpers sampleToday) sampleList =
       Some \<lparr>scenarioType = Scenario2, pendingDetermination = Some r\<rparr>" and
    spec: "specEarliest (specHelpers sampleToday) sampleScheduled = Some r" and
    dec: "sampleScheduled = pre @ r # post" and
    least: "\<forall>c\<in>set sampleScheduled. \<not> specEarlier (specHelpers sampleToday) c r" and
    before: "\<forall>c\<in>set pre. specEarlier (specHelpers sampleToday) r c"
    by blast
  have r: "r = scheduledMayMorning" using result sampleList_result by simp
  have twin: "\<not> specEarlier (specHelpers sampleToday) scheduledMayMorningTwin
      scheduledMayMorning"
    using least r by (simp add: sampleScheduled_def)
  have afternoon: "\<not> specEarlier (specHelpers sampleToday) scheduledMayAfternoon
      scheduledMayMorning"
    using least r by (simp add: sampleScheduled_def)
  have first: "\<exists>pre post. sampleScheduled = pre @ scheduledMayMorning # post \<and>
      (\<forall>c\<in>set pre. specEarlier (specHelpers sampleToday) scheduledMayMorning c)"
    using dec before r by blast
  from cs nonempty result spec r twin afternoon first show ?thesis by simp
qed

text \<open>
  C10: when the function returns a result, the field \<^verbatim>\<open>pendingDetermination\<close> is present
  iff the scenario is Scenario 2, the scenario is one of the first three, and a carried
  record is an element of the input list whose status is pending, whose schedule date
  \<^verbatim>\<open>isValidDate\<close> accepts and whose parsed schedule date is not past.
\<close>

theorem carried_record_invariant:
  "identifyPendingDeterminationScenario h xs = Some r \<Longrightarrow>
     (pendingDetermination r \<noteq> None) = (scenarioType r = Scenario2) \<and>
     scenarioType r \<in> {Scenario1, Scenario2, Scenario3} \<and>
     (\<forall>e. pendingDetermination r = Some e \<longrightarrow>
        e \<in> set xs \<and> isDeterminationStatusPending e \<and> h_isValidDate h (scheduleDate e) \<and>
        \<not> h_isDatePast h (h_parseConvertDate h (scheduleDate e)))"
proof -
  assume r: "identifyPendingDeterminationScenario h xs = Some r"
  let ?cs = "filter (\<lambda>p. specCategory h p = PENDING_SCHEDULED) xs"
  let ?found = "foldl (\<lambda>found p. Some (keptEarliest h found p)) None ?cs"
  show ?thesis
  proof (cases ?found)
    case None
    with r show ?thesis
      by (auto simp: identify_unfold split: if_splits)
  next
    case (Some e)
    with r have req: "r = \<lparr>scenarioType = Scenario2, pendingDetermination = Some e\<rparr>"
      by (simp add: identify_unfold)
    from Some have "e \<in> set ?cs" using kept_member [of h None ?cs e] by simp
    then have "e \<in> set xs" and "specCategory h e = PENDING_SCHEDULED" by simp_all
    with req show ?thesis by (simp add: category_scheduled_iff)
  qed
qed

theorem carried_record_invariant_witness:
  "identifyPendingDeterminationScenario (specHelpers sampleToday) sampleList =
     Some \<lparr>scenarioType = Scenario2, pendingDetermination = Some scheduledMayMorning\<rparr> \<and>
   scheduledMayMorning \<in> set sampleList \<and>
   isDeterminationStatusPending scheduledMayMorning \<and>
   isValidDate (scheduleDate scheduledMayMorning) \<and>
   \<not> isDatePast sampleToday (parseConvertDate (scheduleDate scheduledMayMorning)) \<and>
   identifyPendingDeterminationScenario (specHelpers sampleToday)
       [notYetScheduled, awaitingApril] =
     Some \<lparr>scenarioType = Scenario3, pendingDetermination = None\<rparr>"
  using carried_record_invariant [OF sampleList_result]
    carried_record_invariant [OF awaiting_result] sampleList_result awaiting_result
  by (simp add: specHelpers_def)

section \<open>The resolver\<close>

text \<open>
  C4: when the classifier of the determinations yields no scenario (the list is absent,
  empty, or holds no applicable record), \<^verbatim>\<open>getScenario\<close> returns Scenario 4 if
  \<^verbatim>\<open>hasPendingWeeks\<close> is \<^verbatim>\<open>true\<close>, otherwise Scenario 5 if
  \<^verbatim>\<open>hasCertificationWeeksAvailable\<close> is \<^verbatim>\<open>false\<close>, and otherwise Scenario 6; no record is
  carried.
\<close>

theorem getScenario_fallback:
  "claimPendingDetermination c = None \<or> claimPendingDetermination c = Some [] \<or>
     (\<exists>xs. claimPendingDetermination c = Some xs \<and>
        identifyPendingDeterminationScenario h xs = None)
   \<Longrightarrow> getScenario h c =
     \<lparr>scenarioType =
        (if hasPendingWeeks c = Some True then Scenario4
         else if hasCertificationWeeksAvailable c = Some False then Scenario5
         else Scenario6),
      pendingDetermination = None\<rparr>"
  by (auto simp: getScenario_def flagScenario_def)

theorem getScenario_fallback_witness:
  "identifyPendingDeterminationScenario (specHelpers sampleToday) [completedRecord] = None \<and>
   getScenario (specHelpers sampleToday)
       (sampleClaim (Some [completedRecord]) (Some True) (Some False))
     = \<lparr>scenarioType = Scenario4, pendingDetermination = None\<rparr> \<and>
   getScenario (specHelpers sampleToday) (sampleClaim (Some []) (Some False) (Some False))
     = \<lparr>scenarioType = Scenario5, pendingDetermination = None\<rparr> \<and>
   getScenario (specHelpers sampleToday) (sampleClaim (Some []) (Some False) (Some True))
     = \<lparr>scenarioType = Scenario6, pendingDetermination = None\<rparr> \<and>
   getScenario (specHelpers sampleToday) (sampleClaim None None None)
     = \<lparr>scenarioType = Scenario6, pendingDetermination = None\<rparr>"
  using
    getScenario_fallback [of "sampleClaim (Some [completedRecord]) (Some True) (Some False)"
      "specHelpers sampleToday"]
    getScenario_fallback [of "sampleClaim (Some []) (Some False) (Some False)"
      "specHelpers sampleToday"]
    getScenario_fallback [of "sampleClaim (Some []) (Some False) (Some True)"
      "specHelpers sampleToday"]
    getScenario_fallback [of "sampleClaim None None None" "specHelpers sampleToday"]
    completed_none_applicable
  by (simp add: sampleClaim_def)

text \<open>
  C9: \<^verbatim>\<open>continueCertifying\<close> answers true exactly when the scenario is neither Scenario 5
  nor Scenario 6 and \<^verbatim>\<open>hasCertificationWeeksAvailable\<close> is truthy, that is the boolean
  \<^verbatim>\<open>true\<close>; in every other case it answers false.
\<close>

theorem continueCertifying_iff:
  "continueCertifying st claimData =
     (st \<noteq> Scenario5 \<and> st \<noteq> Scenario6 \<and> hasCertificationWeeksAvailable claimData = Some True)"
  by (simp add: continueCertifying_def)

subsection \<open>The received claim and the declared type\<close>

lemma loop_received_records:
  "loop_received h st (map Some pds) = Inr (foldl (loopBody h) st pds)"
  by (induction pds arbitrary: st) (simp_all add: loopBody_received_def)

lemma loop_received_null:
  "None \<in> set elements \<Longrightarrow> loop_received h st elements = Inl TypeError"
proof (induction elements arbitrary: st)
  case Nil
  then show ?case by simp
next
  case (Cons element rest)
  show ?case
  proof (cases element)
    case None
    then show ?thesis by (simp add: loopBody_received_def)
  next
    case (Some pd)
    then have "None \<in> set rest" using Cons.prems by simp
    then show ?thesis using Some Cons.IH by (simp add: loopBody_received_def)
  qed
qed

lemma identify_received_records:
  "identifyPendingDeterminationScenario_received h (map Some pds) =
     Inr (identifyPendingDeterminationScenario h pds)"
  by (simp add: identifyPendingDeterminationScenario_received_def
      identifyPendingDeterminationScenario_def loop_received_records Let_def)

lemma flagScenario_received_declared:
  "flagScenario_received c = flagScenario (declaredClaim c pds)"
  by (simp add: flagScenario_received_def flagScenario_def declaredClaim_def)

lemma continueCertifying_received_declared:
  "continueCertifying_received st c = continueCertifying st (declaredClaim c pds)"
  by (simp add: continueCertifying_received_def continueCertifying_def declaredClaim_def)

lemma getScenario_received_records:
  assumes "receivedPendingDetermination c = map_option (map Some) pds"
  shows "getScenario_received h c = Inr (getScenario h (declaredClaim c pds))"
proof (cases pds)
  case None
  then show ?thesis
    using assms flagScenario_received_declared [of c None]
    by (simp add: getScenario_received_def getScenario_def declaredClaim_def)
next
  case (Some ys)
  have flags: "flagScenario_received c = flagScenario (declaredClaim c (Some ys))"
    by (rule flagScenario_received_declared)
  have list: "claimPendingDetermination (declaredClaim c (Some ys)) = Some ys"
    by (simp add: declaredClaim_def)
  show ?thesis
    using assms Some
    by (cases "identifyPendingDeterminationScenario h ys")
       (simp_all add: getScenario_received_def getScenario_def identify_received_records
          flags list)
qed

lemma null_element_raises:
  assumes "receivedPendingDetermination c = Some elements" and "None \<in> set elements"
  shows "getScenario_received h c = Inl TypeError"
proof -
  have "elements \<noteq> []" using assms(2) by auto
  then show ?thesis
    using assms
    by (simp add: getScenario_received_def identifyPendingDeterminationScenario_received_def
        loop_received_null)
qed

text \<open>
  C8: on a claim whose list of pending determinations, when there is one, holds records
  only, \<^verbatim>\<open>getScenario\<close> does not raise and returns what it returns at the declared type,
  with one of the six scenario codes; \<^verbatim>\<open>getScenarioContent\<close> raises exactly when
  \<^verbatim>\<open>claimDetails\<close> is falsy (\<^verbatim>\<open>null\<close>, \<^verbatim>\<open>undefined\<close>, or a falsy value such as the empty
  string), the error is the one of the missing claim details, and otherwise it returns
  the content built from the scenario and the details. The imported helpers and the two
  builders of content are functions that return.
\<close>

theorem getScenarioContent_on_records:
  assumes records: "receivedPendingDetermination c = map_option (map Some) pds"
  shows
    "(\<exists>r. getScenario_received h c = Inr r \<and> r = getScenario h (declaredClaim c pds) \<and>
        scenarioType r \<in> {Scenario1, Scenario2, Scenario3, Scenario4, Scenario5, Scenario6}) \<and>
     (getScenarioContent h getClaimStatus getClaimDetails c = Inl MissingClaimDetails)
       = (\<not> jsTruthy (receivedClaimDetails c)) \<and>
     (\<exists>e. getScenarioContent h getClaimStatus getClaimDetails c = Inl e)
       = (\<not> jsTruthy (receivedClaimDetails c)) \<and>
     (jsTruthy (receivedClaimDetails c) \<longrightarrow>
        getScenarioContent h getClaimStatus getClaimDetails c =
          Inr \<lparr>statusContent =
                 getClaimStatus (scenarioType (getScenario h (declaredClaim c pds)))
                   (continueCertifying (scenarioType (getScenario h (declaredClaim c pds)))
                      (declaredClaim c pds)),
               detailsContent = getClaimDetails (receivedClaimDetails c)\<rparr>)"
proof -
  have scenario: "getScenario_received h c = Inr (getScenario h (declaredClaim c pds))"
    using getScenario_received_records [OF records] .
  have six: "scenarioType (getScenario h (declaredClaim c pds))
      \<in> {Scenario1, Scenario2, Scenario3, Scenario4, Scenario5, Scenario6}"
    by (cases "scenarioType (getScenario h (declaredClaim c pds))") simp_all
  have first: "\<exists>r. getScenario_received h c = Inr r \<and> r = getScenario h (declaredClaim c pds) \<and>
        scenarioType r \<in> {Scenario1, Scenario2, Scenario3, Scenario4, Scenario5, Scenario6}"
    using scenario six by simp
  have missing:
    "(getScenarioContent h getClaimStatus getClaimDetails c = Inl MissingClaimDetails)
       = (\<not> jsTruthy (receivedClaimDetails c))"
    by (simp add: getScenarioContent_def scenario Let_def)
  have raises: "(\<exists>e. getScenarioContent h getClaimStatus getClaimDetails c = Inl e)
       = (\<not> jsTruthy (receivedClaimDetails c))"
    by (simp add: getScenarioContent_def scenario Let_def)
  have returns: "jsTruthy (receivedClaimDetails c) \<longrightarrow>
        getScenarioContent h getClaimStatus getClaimDetails c =
          Inr \<lparr>statusContent =
                 getClaimStatus (scenarioType (getScenario h (declaredClaim c pds)))
                   (continueCertifying (scenarioType (getScenario h (declaredClaim c pds)))
                      (declaredClaim c pds)),
               detailsContent = getClaimDetails (receivedClaimDetails c)\<rparr>"
    by (simp add: getScenarioContent_def scenario Let_def
        continueCertifying_received_declared [of _ c pds])
  from first missing raises returns show ?thesis by (intro conjI)
qed

lemma receivedSample_records:
  "receivedPendingDetermination (receivedSample details) =
     map_option (map Some) (Some [completedRecord])"
  by (simp add: receivedSample_def)

lemma receivedSample_scenario:
  "getScenario (specHelpers sampleToday)
       (declaredClaim (receivedSample details) (Some [completedRecord])) =
     \<lparr>scenarioType = Scenario4, pendingDetermination = None\<rparr>"
  by (simp add: getScenario_def flagScenario_def declaredClaim_def receivedSample_def
      completed_none_applicable)

theorem getScenarioContent_on_records_witness:
  "receivedPendingDetermination (receivedSample JsNull) =
     map_option (map Some) (Some [completedRecord]) \<and>
   getScenario_received (specHelpers sampleToday) (receivedSample JsNull) =
     Inr \<lparr>scenarioType = Scenario4, pendingDetermination = None\<rparr> \<and>
   getScenarioContent (specHelpers sampleToday) (\<lambda>st continue. (st, continue))
       (\<lambda>details. details) (receivedSample JsNull) = Inl MissingClaimDetails \<and>
   getScenarioContent (specHelpers sampleToday) (\<lambda>st continue. (st, continue))
       (\<lambda>details. details) (receivedSample (JsString [])) = Inl MissingClaimDetails \<and>
   getScenarioContent (specHelpers sampleToday) (\<lambda>st continue. (st, continue))
       (\<lambda>details. details) (receivedSample (JsObject ())) =
     Inr \<lparr>statusContent = (Scenario4, True), detailsContent = JsObject ()\<rparr>"
proof -
  note rule = getScenarioContent_on_records [where h = "specHelpers sampleToday"
      and getClaimStatus = "\<lambda>st continue. (st, continue)"
      and getClaimDetails = "\<lambda>details. details", OF receivedSample_records]
  have scenario: "getScenario_received (specHelpers sampleToday) (receivedSample JsNull) =
     Inr \<lparr>scenarioType = Scenario4, pendingDetermination = None\<rparr>"
    using rule [of JsNull] receivedSample_scenario [of JsNull] by simp
  have null: "getScenarioContent (specHelpers sampleToday) (\<lambda>st continue. (st, continue))
       (\<lambda>details. details) (receivedSample JsNull) = Inl MissingClaimDetails"
    using rule [of JsNull] by (simp add: receivedSample_def jsTruthy_def)
  have empty: "getScenarioContent (specHelpers sampleToday) (\<lambda>st continue. (st, continue))
       (\<lambda>details. details) (receivedSample (JsString [])) = Inl MissingClaimDetails"
    using rule [of "JsString []"] by (simp add: receivedSample_def jsTruthy_def)
  have truthy: "jsTruthy (receivedClaimDetails (receivedSample (JsObject ())))"
    by (simp add: receivedSample_def jsTruthy_def)
  have weeks: "hasCertificationWeeksAvailable
      (declaredClaim (receivedSample (JsObject ())) (Some [completedRecord])) = Some True"
    by (simp add: declaredClaim_def receivedSample_def)
  have details: "receivedClaimDetails (receivedSample (JsObject ())) = JsObject ()"
    by (simp add: receivedSample_def)
  have object: "getScenarioContent (specHelpers sampleToday) (\<lambda>st continue. (st, continue))
       (\<lambda>details. details) (receivedSample (JsObject ())) =
     Inr \<lparr>statusContent = (Scenario4, True), detailsContent = JsObject ()\<rparr>"
    using rule [of "JsObject ()"] truthy weeks details
      receivedSample_scenario [of "JsObject ()"]
    by (simp add: continueCertifying_def)
  from receivedSample_records [of JsNull] scenario null empty object show ?thesis
    by (intro conjI)
qed

theorem getScenarioContent_null_element_counterexample:
  "receivedPendingDetermination nullElementClaim = Some [None] \<and>
   jsTruthy (receivedClaimDetails nullElementClaim) \<and>
   getScenario_received (specHelpers sampleToday) nullElementClaim = Inl TypeError \<and>
   getScenarioContent (specHelpers sampleToday) (\<lambda>st continue. (st, continue))
       (\<lambda>details. details) nullElementClaim = Inl TypeError"
proof -
  have list: "receivedPendingDetermination nullElementClaim = Some [None]"
    by (simp add: nullElementClaim_def)
  have details: "jsTruthy (receivedClaimDetails nullElementClaim)"
    by (simp add: nullElementClaim_def jsTruthy_def)
  have scenario:
    "getScenario_received (specHelpers sampleToday) nullElementClaim = Inl TypeError"
    using null_element_raises [OF list] by simp
  have content:
    "getScenarioContent (specHelpers sampleToday) (\<lambda>st continue. (st, continue))
       (\<lambda>details. details) nullElementClaim = Inl TypeError"
    by (simp add: getScenarioContent_def scenario)
  from list details scenario content show ?thesis by (intro conjI)
qed

section \<open>The time slots\<close>

text \<open>
  C5: \<^verbatim>\<open>isFirstTimeSlotEarlier\<close> treats the failures of the parser asymmetrically. When
  both descriptions fail to parse the answer is null; when only the second fails it is
  true; when only the first fails it is false. Either way round, the description that
  parses counts as the earlier one.
\<close>

theorem parse_failure_asymmetry:
  "(parseTimeSlot textA = None \<and> parseTimeSlot textB = None \<longrightarrow>
      isFirstTimeSlotEarlier textA textB = None) \<and>
   (parseTimeSlot textA \<noteq> None \<and> parseTimeSlot textB = None \<longrightarrow>
      isFirstTimeSlotEarlier textA textB = Some True \<and>
      isFirstTimeSlotEarlier textB textA = Some False) \<and>
   (parseTimeSlot textA = None \<and> parseTimeSlot textB \<noteq> None \<longrightarrow>
      isFirstTimeSlotEarlier textA textB = Some False \<and>
      isFirstTimeSlotEarlier textB textA = Some True)"
  by (cases "parseTimeSlot textA"; cases "parseTimeSlot textB")
     (simp_all add: isFirstTimeSlotEarlier_def)

theorem parse_failure_asymmetry_witness:
  "parseTimeSlot (Some ''not a time slot'') = None \<and>
   parseTimeSlot (Some ''10-12'') = Some \<lparr>rangeStart = 10, rangeEnd = 12\<rparr> \<and>
   isFirstTimeSlotEarlier (Some ''not a time slot'') (Some ''not a time slot'') = None \<and>
   isFirstTimeSlotEarlier (Some ''10-12'') (Some ''not a time slot'') = Some True \<and>
   isFirstTimeSlotEarlier (Some ''not a time slot'') (Some ''10-12'') = Some False"
  using parse_failure_asymmetry [of "Some ''not a time slot''" "Some ''not a time slot''"]
    parse_failure_asymmetry [of "Some ''10-12''" "Some ''not a time slot''"]
    parse_not_a_time_slot parse_10_12
  by simp

text \<open>
  C6: when both descriptions parse, \<^verbatim>\<open>isFirstTimeSlotEarlier\<close> compares the two values of
  \<^verbatim>\<open>rangeStart\<close> in the order of the 12-hour clock in which the hours 8 to 12 of the
  morning come before the hours 1 to 7 of the afternoon: a morning start is earlier than
  an afternoon start and not the other way round, two starts of the same period are
  compared as numbers, and two slots of the same place in the order, identical slots
  among them, give false.
\<close>

theorem both_parse_clock_order:
  assumes "parseTimeSlot textA = Some a" and "parseTimeSlot textB = Some b"
  shows "isFirstTimeSlotEarlier textA textB =
       Some (clock24 (rangeStart a) < clock24 (rangeStart b)) \<and>
     (isAm (rangeStart a) = (8 \<le> rangeStart a \<and> rangeStart a \<le> 12)) \<and>
     (\<not> isAm (rangeStart a)) = (1 \<le> rangeStart a \<and> rangeStart a \<le> 7) \<and>
     (isAm (rangeStart a) \<and> \<not> isAm (rangeStart b) \<longrightarrow>
        isFirstTimeSlotEarlier textA textB = Some True) \<and>
     (\<not> isAm (rangeStart a) \<and> isAm (rangeStart b) \<longrightarrow>
        isFirstTimeSlotEarlier textA textB = Some False) \<and>
     (samePeriod (rangeStart a) (rangeStart b) \<longrightarrow>
        isFirstTimeSlotEarlier textA textB = Some (rangeStart a < rangeStart b)) \<and>
     (clock24 (rangeStart a) = clock24 (rangeStart b) \<longrightarrow>
        isFirstTimeSlotEarlier textA textB = Some False) \<and>
     (textA = textB \<longrightarrow> isFirstTimeSlotEarlier textA textB = Some False)"
proof -
  note ra = parseTimeSlot_range [OF assms(1)]
  have order: "isFirstTimeSlotEarlier textA textB =
       Some (clock24 (rangeStart a) < clock24 (rangeStart b))"
    using earlier_clock24 [OF assms] .
  have am: "isAm (rangeStart a) = (8 \<le> rangeStart a \<and> rangeStart a \<le> 12)"
    by (simp add: isAm_def)
  have pm: "(\<not> isAm (rangeStart a)) = (1 \<le> rangeStart a \<and> rangeStart a \<le> 7)"
    using ra by (auto simp: isAm_def)
  have ampm: "isAm (rangeStart a) \<and> \<not> isAm (rangeStart b) \<longrightarrow>
        isFirstTimeSlotEarlier textA textB = Some True"
    using assms by (simp add: isFirstTimeSlotEarlier_def samePeriod_def)
  have pmam: "\<not> isAm (rangeStart a) \<and> isAm (rangeStart b) \<longrightarrow>
        isFirstTimeSlotEarlier textA textB = Some False"
    using assms by (simp add: isFirstTimeSlotEarlier_def samePeriod_def)
  have same: "samePeriod (rangeStart a) (rangeStart b) \<longrightarrow>
        isFirstTimeSlotEarlier textA textB = Some (rangeStart a < rangeStart b)"
    using assms by (simp add: isFirstTimeSlotEarlier_def)
  have tie: "clock24 (rangeStart a) = clock24 (rangeStart b) \<longrightarrow>
        isFirstTimeSlotEarlier textA textB = Some False"
    using order by simp
  have ident: "textA = textB \<longrightarrow> isFirstTimeSlotEarlier textA textB = Some False"
    using order assms by auto
  from order am pm ampm pmam same tie ident show ?thesis by (intro conjI)
qed

theorem both_parse_clock_order_witness:
  "parseTimeSlot (Some ''10-12'') = Some \<lparr>rangeStart = 10, rangeEnd = 12\<rparr> \<and>
   parseTimeSlot (Some ''1-3'') = Some \<lparr>rangeStart = 1, rangeEnd = 3\<rparr> \<and>
   isFirstTimeSlotEarlier (Some ''10-12'') (Some ''1-3'') = Some True \<and>
   isFirstTimeSlotEarlier (Some ''1-3'') (Some ''10-12'') = Some False \<and>
   isFirstTimeSlotEarlier (Some ''10-12'') (Some ''10-12'') = Some False"
  using both_parse_clock_order [OF parse_10_12 parse_1_3]
    both_parse_clock_order [OF parse_1_3 parse_10_12]
    both_parse_clock_order [OF parse_10_12 parse_10_12]
    parse_10_12 parse_1_3
  by (simp add: clock24_def)

section \<open>The dates\<close>

text \<open>
  C7: \<^verbatim>\<open>isValidDate\<close> answers false for a text that does not parse as a date and for a
  date earlier than the minimum date, 1 January 2013, and true for every other text; it
  answers true for the minimum date \<^verbatim>\<open>2013-01-01T00:00:00\<close> itself and false for
  \<^verbatim>\<open>0001-01-01T00:00:00\<close> and for an absent text. It is a total function: no text makes
  it raise.
\<close>

theorem isValidDate_threshold:
  "(parseDate text = None \<longrightarrow> \<not> isValidDate (Some text)) \<and>
   (\<forall>d. parseDate text = Some d \<and> d < minDate \<longrightarrow> \<not> isValidDate (Some text)) \<and>
   (\<forall>d. parseDate text = Some d \<and> \<not> d < minDate \<longrightarrow> isValidDate (Some text)) \<and>
   \<not> isValidDate None \<and>
   parseDate ''2013-01-01T00:00:00'' = Some minDate \<and>
   isValidDate (Some ''2013-01-01T00:00:00'') \<and>
   parseDate ''0001-01-01T00:00:00'' = Some (1, 1, 1, 0, 0, 0) \<and>
   \<not> isValidDate (Some ''0001-01-01T00:00:00'')"
proof -
  have general: "(parseDate text = None \<longrightarrow> \<not> isValidDate (Some text)) \<and>
   (\<forall>d. parseDate text = Some d \<and> d < minDate \<longrightarrow> \<not> isValidDate (Some text)) \<and>
   (\<forall>d. parseDate text = Some d \<and> \<not> d < minDate \<longrightarrow> isValidDate (Some text))"
    by (simp add: isValidDate_def parseConvertDate_def)
  have absent: "\<not> isValidDate None"
    by (simp add: isValidDate_def parseConvertDate_def)
  have p1: "parseDate ''2013-01-01T00:00:00'' = Some minDate" by code_simp
  have v1: "isValidDate (Some ''2013-01-01T00:00:00'')" by code_simp
  have p2: "parseDate ''0001-01-01T00:00:00'' = Some (1, 1, 1, 0, 0, 0)" by code_simp
  have v2: "\<not> isValidDate (Some ''0001-01-01T00:00:00'')" by code_simp
  from general absent p1 v1 p2 v2 show ?thesis by (intro conjI) simp_all
qed

theorem isValidDate_threshold_witness:
  "parseDate ''nonsense'' = None \<and> \<not> isValidDate (Some ''nonsense'') \<and>
   parseDate ''2020-05-05T00:00:00'' = Some (2020, 5, 5, 0, 0, 0) \<and>
   \<not> ((2020, 5, 5, 0, 0, 0) :: calendarTime) < minDate \<and>
   isValidDate (Some ''2020-05-05T00:00:00'') \<and>
   ((1, 1, 1, 0, 0, 0) :: calendarTime) < minDate \<and>
   \<not> isValidDate (Some ''0001-01-01T00:00:00'')"
  using isValidDate_threshold [of "''nonsense''"]
    isValidDate_threshold [of "''2020-05-05T00:00:00''"]
    parse_nonsense parse_sample_day sample_day_not_before_min year_one_before_min
  by simp

end
